theory Spec2Isabelle
  imports Complex_Main
begin

section \<open>Values of the Python program\<close>

text \<open>
  The four servers of the repository (\<^verbatim>\<open>mcp_server.py\<close>, \<^verbatim>\<open>simple_mcp_server.py\<close>,
  \<^verbatim>\<open>sse_server.py\<close> and the Flask application \<^verbatim>\<open>simple_sse.py\<close>) exchange JSON
  documents. A value returned by \<^verbatim>\<open>json.loads\<close>, and every dictionary literal of the
  handlers, is a \<open>json\<close>. A Python \<^verbatim>\<open>dict\<close> is the association list of its items in
  insertion order; its keys are distinct, so \<open>map_of\<close> is the lookup. Strings are
  \<open>char list\<close>; every string literal of the sources is ASCII. The literals
  \<^verbatim>\<open>NaN\<close> and \<^verbatim>\<open>Infinity\<close>, which \<^verbatim>\<open>json.loads\<close> accepts beyond JSON, have no value
  here.
\<close>

datatype json =
    JNull
  | JBool bool
  | JInt int
  | JFloat real
  | JStr string
  | JList "json list"
  | JObj "(string \<times> json) list"

text \<open>
  Exceptions are values. The classes are the ones that the sources catch by name or
  that the statements of the handlers raise, and \<open>OtherException\<close> for every other
  subclass of \<^verbatim>\<open>Exception\<close> (what \<^verbatim>\<open>requests\<close> raises on a transport error or a
  timeout, what \<^verbatim>\<open>response.json()\<close> raises on a body that is not JSON).
  \<^verbatim>\<open>JSONDecodeError\<close> is a subclass of \<^verbatim>\<open>ValueError\<close> in Python; no source catches
  \<^verbatim>\<open>ValueError\<close>, so the two are separate classes here. The string is \<^verbatim>\<open>str(e)\<close>; for the exceptions that the interpreter raises
  it is the text of CPython, and no theorem below depends on it.
\<close>

datatype exn =
    AttributeError string
  | TypeError string
  | KeyError string
  | ValueError string
  | JSONDecodeError string
  | UnicodeDecodeError string
  | RecursionError string
  | BrokenPipeError string
  | ConnectionResetError string
  | OtherException string

fun exn_str :: "exn \<Rightarrow> string" where
  "exn_str (AttributeError m) = m"
| "exn_str (TypeError m) = m"
| "exn_str (KeyError m) = m"
| "exn_str (ValueError m) = m"
| "exn_str (JSONDecodeError m) = m"
| "exn_str (UnicodeDecodeError m) = m"
| "exn_str (RecursionError m) = m"
| "exn_str (BrokenPipeError m) = m"
| "exn_str (ConnectionResetError m) = m"
| "exn_str (OtherException m) = m"

fun is_JSONDecodeError :: "exn \<Rightarrow> bool" where
  \<comment> \<open>what \<^verbatim>\<open>except json.JSONDecodeError\<close> catches\<close>
  "is_JSONDecodeError (JSONDecodeError m) = True"
| "is_JSONDecodeError x = False"

definition quoted :: "string \<Rightarrow> string" where
  \<comment> \<open>the text between two apostrophes, as in the f-string \<^verbatim>\<open>'{x}'\<close>\<close>
  "quoted s = CHR 0x27 # s @ [CHR 0x27]"

fun py_type_name :: "json \<Rightarrow> string" where
  "py_type_name JNull = ''NoneType''"
| "py_type_name (JBool b) = ''bool''"
| "py_type_name (JInt i) = ''int''"
| "py_type_name (JFloat r) = ''float''"
| "py_type_name (JStr s) = ''str''"
| "py_type_name (JList xs) = ''list''"
| "py_type_name (JObj kvs) = ''dict''"

fun contains :: "string \<Rightarrow> string \<Rightarrow> bool" where
  \<comment> \<open>\<^verbatim>\<open>needle in haystack\<close> on two strings\<close>
  "contains needle [] = (needle = [])"
| "contains needle (c # cs) = (take (length needle) (c # cs) = needle \<or> contains needle cs)"

fun dict_get :: "json \<Rightarrow> string \<Rightarrow> json \<Rightarrow> exn + json" where
  \<comment> \<open>\<^verbatim>\<open>v.get(k, d)\<close>: only a dict has the method\<close>
  "dict_get (JObj kvs) k d = Inr (case map_of kvs k of Some v \<Rightarrow> v | None \<Rightarrow> d)"
| "dict_get v k d =
     Inl (AttributeError (quoted (py_type_name v) @ '' object has no attribute '' @ quoted ''get''))"

fun py_in :: "string \<Rightarrow> json \<Rightarrow> exn + bool" where
  \<comment> \<open>\<^verbatim>\<open>k in v\<close> for a string \<open>k\<close>\<close>
  "py_in k (JObj kvs) = Inr (k \<in> set (map fst kvs))"
| "py_in k (JList xs) = Inr (JStr k \<in> set xs)"
| "py_in k (JStr s) = Inr (contains k s)"
| "py_in k v =
     Inl (TypeError (''argument of type '' @ quoted (py_type_name v) @ '' is not iterable''))"

fun py_subscript :: "json \<Rightarrow> string \<Rightarrow> exn + json" where
  \<comment> \<open>\<^verbatim>\<open>v[k]\<close> for a string \<open>k\<close>\<close>
  "py_subscript (JObj kvs) k =
     (case map_of kvs k of Some v \<Rightarrow> Inr v | None \<Rightarrow> Inl (KeyError (quoted k)))"
| "py_subscript (JList xs) k =
     Inl (TypeError ''list indices must be integers or slices, not str'')"
| "py_subscript (JStr s) k = Inl (TypeError ''string indices must be integers'')"
| "py_subscript v k =
     Inl (TypeError (quoted (py_type_name v) @ '' object is not subscriptable''))"

fun truthy :: "json \<Rightarrow> bool" where
  \<comment> \<open>Python's truth value, the negation of \<^verbatim>\<open>not v\<close>\<close>
  "truthy JNull = False"
| "truthy (JBool b) = b"
| "truthy (JInt i) = (i \<noteq> 0)"
| "truthy (JFloat r) = (r \<noteq> 0)"
| "truthy (JStr s) = (s \<noteq> [])"
| "truthy (JList xs) = (xs \<noteq> [])"
| "truthy (JObj kvs) = (kvs \<noteq> [])"

fun py_len :: "json \<Rightarrow> exn + nat" where
  "py_len (JStr s) = Inr (length s)"
| "py_len (JList xs) = Inr (length xs)"
| "py_len (JObj kvs) = Inr (length kvs)"
| "py_len v =
     Inl (TypeError (''object of type '' @ quoted (py_type_name v) @ '' has no len()''))"

definition char_lower :: "char \<Rightarrow> char" where
  "char_lower c =
     (if 65 \<le> (of_char c :: nat) \<and> (of_char c :: nat) \<le> 90
      then char_of ((of_char c :: nat) + 32) else c)"

definition lower :: "string \<Rightarrow> string" where
  \<comment> \<open>\<^verbatim>\<open>s.lower()\<close> on ASCII text\<close>
  "lower s = map char_lower s"

fun str_lower :: "json \<Rightarrow> exn + string" where
  \<comment> \<open>\<^verbatim>\<open>v.lower()\<close>: only a str has the method\<close>
  "str_lower (JStr s) = Inr (lower s)"
| "str_lower v =
     Inl (AttributeError (quoted (py_type_name v) @ '' object has no attribute '' @ quoted ''lower''))"

section \<open>The environment of a handler\<close>

text \<open>
  What a handler takes from outside the repository is a field of \<open>env\<close>:
  the process environment \<^verbatim>\<open>os.environ\<close>; \<^verbatim>\<open>int(v)\<close> on a header value, which raises
  \<^verbatim>\<open>ValueError\<close> on text that is no number; \<^verbatim>\<open>b.decode('utf-8')\<close> on the bytes of a
  body, which raises \<^verbatim>\<open>UnicodeDecodeError\<close>; \<^verbatim>\<open>json.loads\<close>, which returns a value or
  raises (\<^verbatim>\<open>JSONDecodeError\<close> on text that is not JSON, \<^verbatim>\<open>RecursionError\<close> on deep
  nesting, \<^verbatim>\<open>ValueError\<close> on an integer of too many digits); \<^verbatim>\<open>json.dumps\<close> with its
  \<^verbatim>\<open>indent\<close>, which returns the text or raises;
  \<^verbatim>\<open>requests.post(endpoint, json=payload, timeout=t)\<close>, which returns a response or
  raises; \<^verbatim>\<open>str(v)\<close> on a value that is not a string (an f-string prints a string as
  it is); and the reading of \<^verbatim>\<open>time.time()\<close> once the session has slept the given
  number of seconds.
\<close>

record http_response =
  status_code :: int
  response_text :: string
  json_body :: "exn + json"

record env =
  environ :: "string \<rightharpoonup> string"
  py_int :: "string \<Rightarrow> exn + int"
  utf8_decode :: "string \<Rightarrow> exn + string"
  json_loads :: "string \<Rightarrow> exn + json"
  json_dumps :: "nat option \<Rightarrow> json \<Rightarrow> exn + string"
  requests_post :: "string \<Rightarrow> json \<Rightarrow> nat \<Rightarrow> exn + http_response"
  py_str :: "json \<Rightarrow> string"
  time_time :: "nat \<Rightarrow> real"

definition getenv :: "env \<Rightarrow> string \<Rightarrow> string \<Rightarrow> string" where
  \<comment> \<open>\<^verbatim>\<open>os.environ.get(k, d)\<close>\<close>
  "getenv e k d = (case environ e k of Some v \<Rightarrow> v | None \<Rightarrow> d)"

fun fstr :: "env \<Rightarrow> json \<Rightarrow> string" where
  \<comment> \<open>\<^verbatim>\<open>{v}\<close> inside an f-string\<close>
  "fstr e (JStr s) = s"
| "fstr e v = py_str e v"

type_synonym gateway_call = "string \<times> json \<times> nat"

text \<open>
  The state shared by the handlers of one process: the module-level
  \<^verbatim>\<open>event_queue = queue.Queue()\<close>, oldest event first, and the log of the outbound
  calls made so far (the Backend Gateway of the specification).
\<close>

record server_state =
  event_queue :: "json list"
  gateway_calls :: "gateway_call list"

datatype http_reply =
    JsonReply int json
  | TextReply int string
  | ErrorReply int string

definition publish :: "json \<Rightarrow> json list \<Rightarrow> json list" where
  \<comment> \<open>\<^verbatim>\<open>event_queue.put(event)\<close>\<close>
  "publish event q = q @ [event]"

definition tryConsume :: "json list \<Rightarrow> (json \<times> json list) option" where
  \<comment> \<open>\<^verbatim>\<open>event_queue.get(block=False)\<close>; \<open>None\<close> is \<^verbatim>\<open>queue.Empty\<close>\<close>
  "tryConsume q = (case q of [] \<Rightarrow> None | event # rest \<Rightarrow> Some (event, rest))"

section \<open>\<^verbatim>\<open>mcp_server.py\<close>: the action handlers\<close>

text \<open>
  The \<^verbatim>\<open>logger\<close> calls of the action handlers are left out: they format strings
  only, and change nothing a handler returns. A handler
  that calls the Backend Gateway returns its result together with the outbound calls
  it made, in order.
\<close>

definition mcp_TOOLS :: json where
  "mcp_TOOLS = JList [
     JObj [(''name'', JStr ''query''),
           (''description'', JStr ''Query VAEBZ product information using natural language''),
           (''parameters'', JObj [
              (''type'', JStr ''object''),
              (''properties'', JObj [
                 (''query'', JObj [(''type'', JStr ''string''),
                                   (''description'', JStr ''The query about VAEBZ products or services'')])]),
              (''required'', JList [JStr ''query''])])],
     JObj [(''name'', JStr ''embedding''),
           (''description'', JStr ''Get embeddings for a given text''),
           (''parameters'', JObj [
              (''type'', JStr ''object''),
              (''properties'', JObj [
                 (''text'', JObj [(''type'', JStr ''string''),
                                  (''description'', JStr ''The text to embed'')])]),
              (''required'', JList [JStr ''text''])])]]"

definition mcp_handle_get_tools :: json where
  "mcp_handle_get_tools =
     JObj [(''status'', JStr ''ok''),
           (''message'', JStr ''Tools retrieved''),
           (''data'', JObj [(''tools'', mcp_TOOLS)])]"

definition unlines :: "string list \<Rightarrow> string" where
  \<comment> \<open>the lines of a triple-quoted literal, each ended by a newline\<close>
  "unlines ls = concat (map (\<lambda>l. l @ [CHR 0x0A]) ls)"

definition query_context :: string where
  \<comment> \<open>the local \<^verbatim>\<open>context\<close> of \<^verbatim>\<open>handle_query\<close>\<close>
  "query_context = unlines [
     [],
     ''VAEBZ is a technology company specializing in AI infrastructure and automation solutions.'',
     ''Key products include:'',
     ''- TaskHarbinger: An AI orchestration platform for workflow automation'',
     ''- LightRAG: A retrieval-augmented generation system for knowledge integration'',
     ''- MCP Services: AI service integrations using Marvin Control Protocol'',
     ''- SentinelGaze: Web UI for system monitoring and management'',
     ''- AtomicScope: A real-time code analysis and visualization tool for developers'',
     ''- ProposalForge: An automated proposal generation and management system'',
     [],
     ''TaskHarbinger features include orchestration of AI tasks, integration with various AI services, '',
     ''support for LightRAG, Git MCP server, containerized architecture with Docker, Traefik for API routing, '',
     ''DynamoDB for persistence, Redis for caching, and UI for monitoring.'',
     [],
     ''AtomicScope provides real-time code structure visualization, dependency analysis, impact assessment of '',
     ''code changes, integration with version control systems, performance bottleneck identification, and '',
     ''automated refactoring suggestions. It helps development teams understand complex codebases more easily.'',
     [],
     ''ProposalForge is VAEBZ's AI-powered proposal system that automates the creation, management, and tracking '',
     ''of business proposals. It features customizable templates, content generation based on client requirements, '',
     ''pricing optimization algorithms, approval workflows, digital signature integration, analytics dashboards, '',
     ''and seamless integration with CRM systems. The system reduces proposal creation time by up to 70% while '',
     ''improving win rates through personalized content and data-driven insights.'',
     [],
     ''MCP (Marvin Control Protocol) allows standardized communication between AI services with support for '',
     ''multiple transport methods, service discovery, integration with AI tools, authentication, and action frameworks.'',
     [],
     ''The system uses a microservice architecture with Docker containers, API routing through Traefik, '',
     ''and various specialized components for AI processing.'']"

definition query_prompt :: "env \<Rightarrow> json \<Rightarrow> string" where
  \<comment> \<open>the local \<^verbatim>\<open>prompt\<close> of \<^verbatim>\<open>handle_query\<close>\<close>
  "query_prompt e query_text =
     unlines [
       ''Based on the following context about VAEBZ and its products, please answer this question:'',
       [],
       ''CONTEXT:''] @
     query_context @
     unlines [[], [], ''QUESTION:''] @
     fstr e query_text @
     unlines [[], [],
       ''If the question cannot be answered based on the context, please only use information that would be factual about '',
       ''VAEBZ as a technology company focused on AI infrastructure and automation. Do not invent specific details about ''] @
     ''people, events, or statistics that aren't in the context.''"

definition knowledge_base_sources :: json where
  "knowledge_base_sources = JList [
     JObj [(''title'', JStr ''VAEBZ Knowledge Base''),
           (''snippet'', JStr ''Information about VAEBZ and TaskHarbinger''),
           (''confidence'', JFloat 0.95)]]"

definition no_query_provided :: json where
  "no_query_provided =
     JObj [(''status'', JStr ''error''),
           (''message'', JStr ''No query provided''),
           (''data'', JNull)]"

definition query_fallback :: "env \<Rightarrow> json \<Rightarrow> json" where
  \<comment> \<open>\<^verbatim>\<open># Fallback response if LLM call fails\<close>\<close>
  "query_fallback e query_text =
     JObj [(''status'', JStr ''error''),
           (''message'', JStr ''Failed to process query''),
           (''data'', JObj [
              (''response'', JStr (''I'm unable to answer your question about '' @
                                   quoted (fstr e query_text) @
                                   '' at this time. Please try again later.'')),
              (''sources'', JList [])])]"

definition query_exception :: "exn \<Rightarrow> json" where
  \<comment> \<open>the \<^verbatim>\<open>except Exception as e\<close> clause of \<^verbatim>\<open>handle_query\<close>\<close>
  "query_exception x =
     JObj [(''status'', JStr ''error''),
           (''message'', JStr (''Error processing query: '' @ exn_str x)),
           (''data'', JNull)]"

definition mcp_handle_query :: "env \<Rightarrow> json \<Rightarrow> json \<times> gateway_call list" where
  "mcp_handle_query e data =
     (case dict_get data ''data'' (JObj []) of
        Inl x \<Rightarrow> (query_exception x, [])
      | Inr d \<Rightarrow>
     (case dict_get d ''query'' (JStr []) of
        Inl x \<Rightarrow> (query_exception x, [])
      | Inr query_text \<Rightarrow>
          if \<not> truthy query_text then (no_query_provided, [])
          else
            let llm_binding = getenv e ''LLM_BINDING'' ''ollama'';
                llm_host = getenv e ''LLM_BINDING_HOST'' ''http://host.docker.internal:11434'';
                llm_model = getenv e ''LLM_MODEL'' ''llama3:instruct'';
                prompt = query_prompt e query_text
            in
              if llm_binding = ''ollama'' then
                let endpoint = llm_host @ ''/api/generate'';
                    payload = JObj [(''model'', JStr llm_model),
                                    (''prompt'', JStr prompt),
                                    (''stream'', JBool False)];
                    calls = [(endpoint, payload, 60)]
                in
                  (case requests_post e endpoint payload 60 of
                     Inl x \<Rightarrow> (query_exception x, calls)
                   | Inr response \<Rightarrow>
                       if status_code response = 200 then
                         (case json_body response of
                            Inl x \<Rightarrow> (query_exception x, calls)
                          | Inr llm_response \<Rightarrow>
                         (case dict_get llm_response ''response'' (JStr ''No response from LLM'') of
                            Inl x \<Rightarrow> (query_exception x, calls)
                          | Inr r \<Rightarrow>
                              (JObj [(''status'', JStr ''ok''),
                                     (''message'', JStr ''Query processed''),
                                     (''data'', JObj [(''response'', r),
                                                      (''sources'', knowledge_base_sources)])],
                               calls)))
                       else (query_fallback e query_text, calls))
              else (query_fallback e query_text, [])))"

definition embedding_exception :: "exn \<Rightarrow> json" where
  \<comment> \<open>the \<^verbatim>\<open>except Exception as e\<close> clause of \<^verbatim>\<open>handle_embedding\<close>\<close>
  "embedding_exception x =
     JObj [(''status'', JStr ''error''),
           (''message'', JStr (''Error processing embedding: '' @ exn_str x)),
           (''data'', JNull)]"

definition embedding_fallback :: "string \<Rightarrow> json" where
  \<comment> \<open>\<^verbatim>\<open># Fallback if embedding service is unavailable\<close>\<close>
  "embedding_fallback embedding_model =
     JObj [(''status'', JStr ''error''),
           (''message'', JStr ''Embedding service unavailable''),
           (''data'', JObj [(''dimensions'', JInt 0),
                            (''model'', JStr embedding_model),
                            (''status'', JStr ''failed'')])]"

definition mcp_handle_embedding :: "env \<Rightarrow> json \<Rightarrow> json \<times> gateway_call list" where
  "mcp_handle_embedding e data =
     (case dict_get data ''data'' (JObj []) of
        Inl x \<Rightarrow> (embedding_exception x, [])
      | Inr d \<Rightarrow>
     (case dict_get d ''text'' (JStr []) of
        Inl x \<Rightarrow> (embedding_exception x, [])
      | Inr txt \<Rightarrow>
          if \<not> truthy txt then
            (JObj [(''status'', JStr ''error''),
                   (''message'', JStr ''No text provided for embedding''),
                   (''data'', JNull)], [])
          else
            let embedding_binding = getenv e ''EMBEDDING_BINDING'' ''ollama'';
                embedding_host = getenv e ''EMBEDDING_BINDING_HOST'' ''http://host.docker.internal:11434'';
                embedding_model = getenv e ''EMBEDDING_MODEL'' ''bge-m3:latest''
            in
              if embedding_binding = ''ollama'' then
                let endpoint = embedding_host @ ''/api/embeddings'';
                    payload = JObj [(''model'', JStr embedding_model), (''prompt'', txt)];
                    calls = [(endpoint, payload, 30)]
                in
                  (case requests_post e endpoint payload 30 of
                     Inl x \<Rightarrow> (embedding_exception x, calls)
                   | Inr response \<Rightarrow>
                       if status_code response = 200 then
                         (case json_body response of
                            Inl x \<Rightarrow> (embedding_exception x, calls)
                          | Inr embedding_response \<Rightarrow>
                         (case dict_get embedding_response ''embedding'' (JList []) of
                            Inl x \<Rightarrow> (embedding_exception x, calls)
                          | Inr v \<Rightarrow>
                         (case py_len v of
                            Inl x \<Rightarrow> (embedding_exception x, calls)
                          | Inr n \<Rightarrow>
                              (JObj [(''status'', JStr ''ok''),
                                     (''message'', JStr ''Embedding processed''),
                                     (''data'', JObj [(''dimensions'', JInt (int n)),
                                                      (''model'', JStr embedding_model),
                                                      (''status'', JStr ''success'')])],
                               calls))))
                       else (embedding_fallback embedding_model, calls))
              else (embedding_fallback embedding_model, [])))"

definition mcp_handle_capabilities :: "env \<Rightarrow> json" where
  "mcp_handle_capabilities e =
     JObj [(''status'', JStr ''ok''),
           (''message'', JStr ''Capabilities retrieved''),
           (''data'', JObj [
              (''capabilities'', JList [JStr ''rag'', JStr ''embedding'', JStr ''query'']),
              (''models'', JObj [
                 (''llm'', JStr (getenv e ''LLM_MODEL'' ''llama3:instruct'')),
                 (''embedding'', JStr (getenv e ''EMBEDDING_MODEL'' ''bge-m3:latest''))]),
              (''api_version'', JStr ''1.0''),
              (''tools'', mcp_TOOLS)])]"

definition mcp_default_response :: "string \<Rightarrow> json" where
  "mcp_default_response message =
     JObj [(''status'', JStr ''ok''),
           (''message'', JStr message),
           (''data'', JObj [
              (''capabilities'', JList [JStr ''rag'', JStr ''embedding'', JStr ''query'']),
              (''api_version'', JStr ''1.0'')])]"

section \<open>\<^verbatim>\<open>mcp_server.py\<close>: \<^verbatim>\<open>do_POST\<close>\<close>

text \<open>
  A POST request is its headers, the outcome of \<^verbatim>\<open>self.rfile.read(content_length)\<close>
  (the bytes of the body, or the exception of a connection that fails while the body
  is read), and its client: the number of writes the client still accepts before it
  disconnects, \<open>None\<close> for a client that stays; the write after the last accepted one
  raises \<^verbatim>\<open>BrokenPipeError\<close>. Every statement of \<^verbatim>\<open>do_POST\<close> that can raise is a branch
  of the model: \<^verbatim>\<open>int(...)\<close> on the \<^verbatim>\<open>Content-Length\<close> header, the read of the body and
  \<^verbatim>\<open>.decode('utf-8')\<close> on its bytes, all before the \<^verbatim>\<open>try\<close>; \<^verbatim>\<open>json.loads\<close>, the \<^verbatim>\<open>json.dumps\<close> of the
  logging line and the dispatch, inside the \<^verbatim>\<open>try\<close>, whose \<^verbatim>\<open>except\<close> clause catches
  \<^verbatim>\<open>JSONDecodeError\<close> and nothing else; and the sending of the reply, which writes the
  headers, calls \<^verbatim>\<open>json.dumps(response)\<close> and writes the body. The result of a handler
  is the reply it has sent, or the exception that has left it, together with the state
  of the process as the handler leaves it.
\<close>

record post_request =
  post_headers :: "string \<rightharpoonup> string"
  rfile :: "exn + string"
  client :: "nat option"

definition content_length :: "env \<Rightarrow> post_request \<Rightarrow> exn + int" where
  \<comment> \<open>\<^verbatim>\<open>int(self.headers.get('Content-Length', 0))\<close>\<close>
  "content_length e req =
     (case post_headers req ''Content-Length'' of None \<Rightarrow> Inr 0 | Some v \<Rightarrow> py_int e v)"

definition post_data :: "env \<Rightarrow> post_request \<Rightarrow> exn + string" where
  \<comment> \<open>\<^verbatim>\<open>self.rfile.read(content_length).decode('utf-8')\<close>\<close>
  "post_data e req = (case rfile req of Inl x \<Rightarrow> Inl x | Inr bytes \<Rightarrow> utf8_decode e bytes)"

definition wfile_write :: "nat option \<Rightarrow> exn + nat option" where
  \<comment> \<open>one write to the client; the result is the client after the write\<close>
  "wfile_write c =
     (case c of
        None \<Rightarrow> Inr None
      | Some 0 \<Rightarrow> Inl (BrokenPipeError ''[Errno 32] Broken pipe'')
      | Some (Suc n) \<Rightarrow> Inr (Some n))"

definition send_json :: "env \<Rightarrow> nat option \<Rightarrow> json \<Rightarrow> exn option \<times> nat option" where
  \<comment> \<open>\<^verbatim>\<open># Send response\<close>: \<^verbatim>\<open>end_headers()\<close> writes the status line and the headers, then
      \<^verbatim>\<open>self.wfile.write(json.dumps(response).encode())\<close>; \<open>None\<close> when the reply is sent\<close>
  "send_json e c response =
     (case wfile_write c of
        Inl x \<Rightarrow> (Some x, c)
      | Inr c1 \<Rightarrow>
          (case json_dumps e None response of
             Inl x \<Rightarrow> (Some x, c1)
           | Inr body \<Rightarrow>
               (case wfile_write c1 of
                  Inl x \<Rightarrow> (Some x, c1)
                | Inr c2 \<Rightarrow> (None, c2))))"

definition invalid_json_data :: json where
  \<comment> \<open>the \<^verbatim>\<open>except json.JSONDecodeError\<close> clause of \<^verbatim>\<open>do_POST\<close>\<close>
  "invalid_json_data =
     JObj [(''status'', JStr ''error''),
           (''message'', JStr ''Invalid JSON data'')]"

definition mcp_dispatch :: "env \<Rightarrow> json \<Rightarrow> exn + json \<times> gateway_call list" where
  \<comment> \<open>\<^verbatim>\<open># Process based on action\<close>\<close>
  "mcp_dispatch e request_data =
     (case py_in ''action'' request_data of
        Inl x \<Rightarrow> Inl x
      | Inr has_action \<Rightarrow>
          if has_action then
            (case dict_get request_data ''action'' JNull of
               Inl x \<Rightarrow> Inl x
             | Inr action \<Rightarrow>
                 if action = JStr ''query'' then Inr (mcp_handle_query e request_data)
                 else if action = JStr ''embedding'' then Inr (mcp_handle_embedding e request_data)
                 else if action = JStr ''capabilities'' then Inr (mcp_handle_capabilities e, [])
                 else if action = JStr ''get_tools'' then Inr (mcp_handle_get_tools, [])
                 else Inr (mcp_default_response
                             (''Action '' @ quoted (fstr e action) @ '' acknowledged''), []))
          else Inr (mcp_default_response ''No action specified'', []))"

definition mcp_try :: "env \<Rightarrow> string \<Rightarrow> exn + json \<times> gateway_call list" where
  \<comment> \<open>the body of the \<^verbatim>\<open>try\<close> statement: \<^verbatim>\<open>json.loads\<close>, the logging line with
      \<^verbatim>\<open>json.dumps(request_data, indent=2)\<close>, the dispatch\<close>
  "mcp_try e data =
     (case json_loads e data of
        Inl x \<Rightarrow> Inl x
      | Inr request_data \<Rightarrow>
          (case json_dumps e (Some 2) request_data of
             Inl x \<Rightarrow> Inl x
           | Inr logged \<Rightarrow> mcp_dispatch e request_data))"

definition send_and_publish :: "env \<Rightarrow> post_request \<Rightarrow> json \<Rightarrow> gateway_call list \<Rightarrow> server_state \<Rightarrow> (exn + http_reply) \<times> server_state" where
  \<comment> \<open>\<^verbatim>\<open># Send response\<close>, then \<^verbatim>\<open># Also add to SSE queue for any listening clients\<close>;
      the outbound calls of the dispatch have been made by then\<close>
  "send_and_publish e req response calls s =
     (let s1 = s\<lparr>gateway_calls := gateway_calls s @ calls\<rparr> in
      case fst (send_json e (client req) response) of
        Some x \<Rightarrow> (Inl x, s1)
      | None \<Rightarrow>
          (Inr (JsonReply 200 response),
           s1\<lparr>event_queue := publish response (event_queue s1)\<rparr>))"

definition mcp_do_POST :: "env \<Rightarrow> post_request \<Rightarrow> server_state \<Rightarrow> (exn + http_reply) \<times> server_state" where
  "mcp_do_POST e req s =
     (case content_length e req of
        Inl x \<Rightarrow> (Inl x, s)
      | Inr n \<Rightarrow>
          if n > 0 then
            (case post_data e req of
               Inl x \<Rightarrow> (Inl x, s)
             | Inr data \<Rightarrow>
                 (case mcp_try e data of
                    Inl x \<Rightarrow>
                      if is_JSONDecodeError x then send_and_publish e req invalid_json_data [] s
                      else (Inl x, s)
                  | Inr (response, calls) \<Rightarrow> send_and_publish e req response calls s))
          else send_and_publish e req (mcp_default_response ''Empty request'') [] s)"

section \<open>\<^verbatim>\<open>simple_mcp_server.py\<close>: \<^verbatim>\<open>do_POST\<close>\<close>

definition simple_TOOLS :: json where
  "simple_TOOLS = JList [
     JObj [(''name'', JStr ''query''),
           (''description'', JStr ''Query VAEBZ product information using natural language''),
           (''parameters'', JObj [
              (''type'', JStr ''object''),
              (''properties'', JObj [
                 (''query'', JObj [(''type'', JStr ''string''),
                                   (''description'', JStr ''The query about VAEBZ products or services'')])]),
              (''required'', JList [JStr ''query''])])]]"

definition canned_response_text :: "string \<Rightarrow> string \<Rightarrow> string" where
  \<comment> \<open>\<^verbatim>\<open>response_text\<close> of the hardcoded \<^verbatim>\<open>handle_query\<close>; the second argument is \<^verbatim>\<open>query_text.lower()\<close>\<close>
  "canned_response_text query_text lowered =
     (if contains ''vaebz'' lowered then
        ''VAEBZ is a technology company specializing in AI infrastructure and automation solutions. Key products include TaskHarbinger, LightRAG, MCP Services, SentinelGaze, AtomicScope, and ProposalForge.''
      else
        ''Based on available information, I can tell you that your query '' @ quoted query_text @
        '' relates to VAEBZ's AI products and services. VAEBZ offers TaskHarbinger for AI orchestration, LightRAG for knowledge integration, and several other AI automation tools.'')"

definition canned_query_result :: "env \<Rightarrow> json \<Rightarrow> exn + json" where
  \<comment> \<open>\<^verbatim>\<open>handle_query\<close> after its guard, as \<^verbatim>\<open>simple_mcp_server.py\<close> and \<^verbatim>\<open>sse_server.py\<close> both have it\<close>
  "canned_query_result e query_text =
     (case str_lower query_text of
        Inl x \<Rightarrow> Inl x
      | Inr lowered \<Rightarrow>
          Inr (JObj [(''status'', JStr ''ok''),
                     (''message'', JStr ''Query processed''),
                     (''data'', JObj [
                        (''response'', JStr (canned_response_text (fstr e query_text) lowered)),
                        (''sources'', knowledge_base_sources)])]))"

definition simple_handle_query :: "env \<Rightarrow> json \<Rightarrow> exn + json" where
  "simple_handle_query e data =
     (case dict_get data ''data'' (JObj []) of
        Inl x \<Rightarrow> Inl x
      | Inr d \<Rightarrow>
     (case dict_get d ''query'' (JStr []) of
        Inl x \<Rightarrow> Inl x
      | Inr query_text \<Rightarrow>
          if \<not> truthy query_text then
            Inr (JObj [(''status'', JStr ''error''),
                       (''message'', JStr ''No query provided''),
                       (''data'', JNull)])
          else canned_query_result e query_text))"

definition simple_dispatch :: "env \<Rightarrow> json \<Rightarrow> exn + json" where
  \<comment> \<open>\<^verbatim>\<open># Process based on action\<close>\<close>
  "simple_dispatch e request_data =
     (case py_in ''action'' request_data of
        Inl x \<Rightarrow> Inl x
      | Inr has_action \<Rightarrow>
          if has_action then
            (case dict_get request_data ''action'' JNull of
               Inl x \<Rightarrow> Inl x
             | Inr action \<Rightarrow>
                 if action = JStr ''query'' then simple_handle_query e request_data
                 else if action = JStr ''get_tools'' then
                   Inr (JObj [(''status'', JStr ''ok''),
                              (''message'', JStr ''Tools retrieved''),
                              (''data'', JObj [(''tools'', simple_TOOLS)])])
                 else
                   Inr (JObj [(''status'', JStr ''ok''),
                              (''message'', JStr (''Action '' @ quoted (fstr e action) @ '' acknowledged'')),
                              (''data'', JObj [])]))
          else
            Inr (JObj [(''status'', JStr ''ok''),
                       (''message'', JStr ''No action specified''),
                       (''data'', JObj [])]))"

definition simple_try :: "env \<Rightarrow> string \<Rightarrow> exn + json" where
  \<comment> \<open>the body of the \<^verbatim>\<open>try\<close> statement\<close>
  "simple_try e data =
     (case json_loads e data of
        Inl x \<Rightarrow> Inl x
      | Inr request_data \<Rightarrow>
          (case json_dumps e (Some 2) request_data of
             Inl x \<Rightarrow> Inl x
           | Inr logged \<Rightarrow> simple_dispatch e request_data))"

definition simple_do_POST :: "env \<Rightarrow> post_request \<Rightarrow> server_state \<Rightarrow> (exn + http_reply) \<times> server_state" where
  "simple_do_POST e req s =
     (case content_length e req of
        Inl x \<Rightarrow> (Inl x, s)
      | Inr n \<Rightarrow>
          if n > 0 then
            (case post_data e req of
               Inl x \<Rightarrow> (Inl x, s)
             | Inr data \<Rightarrow>
                 (case simple_try e data of
                    Inl x \<Rightarrow>
                      if is_JSONDecodeError x then send_and_publish e req invalid_json_data [] s
                      else (Inl x, s)
                  | Inr response \<Rightarrow> send_and_publish e req response [] s))
          else
            send_and_publish e req
              (JObj [(''status'', JStr ''ok''),
                     (''message'', JStr ''Empty request''),
                     (''data'', JObj [])]) [] s)"

section \<open>\<^verbatim>\<open>sse_server.py\<close>: \<^verbatim>\<open>do_POST\<close>\<close>

text \<open>
  \<^verbatim>\<open>sse_server.py\<close> declares no event queue and imports no HTTP client: its handler
  hands the state of the process back as it found it. \<^verbatim>\<open>send_error(code, message)\<close>
  writes the headers and an HTML error page, not a JSON document; sent, it is the reply
  \<open>ErrorReply code message\<close>. The reply to a request that parses is sent inside the
  \<^verbatim>\<open>try\<close> statement.
\<close>

definition sse_handle_query :: "env \<Rightarrow> json \<Rightarrow> exn + json" where
  "sse_handle_query e data =
     (case dict_get data ''data'' (JObj []) of
        Inl x \<Rightarrow> Inl x
      | Inr d \<Rightarrow>
     (case dict_get d ''query'' (JStr []) of
        Inl x \<Rightarrow> Inl x
      | Inr query_text \<Rightarrow>
          if \<not> truthy query_text then
            Inr (JObj [(''status'', JStr ''error''),
                       (''message'', JStr ''No query provided'')])
          else canned_query_result e query_text))"

definition sse_dispatch :: "env \<Rightarrow> json \<Rightarrow> exn + json" where
  \<comment> \<open>\<^verbatim>\<open># Process query request\<close>\<close>
  "sse_dispatch e request_data =
     (case py_in ''action'' request_data of
        Inl x \<Rightarrow> Inl x
      | Inr has_action \<Rightarrow>
          if has_action then
            (case py_subscript request_data ''action'' of
               Inl x \<Rightarrow> Inl x
             | Inr action \<Rightarrow>
                 if action = JStr ''query'' then sse_handle_query e request_data
                 else
                   Inr (JObj [(''status'', JStr ''ok''),
                              (''message'', JStr ''Request received''),
                              (''data'', JObj [])]))
          else
            Inr (JObj [(''status'', JStr ''ok''),
                       (''message'', JStr ''Request received''),
                       (''data'', JObj [])]))"

definition send_error :: "nat option \<Rightarrow> int \<Rightarrow> string \<Rightarrow> exn + http_reply" where
  \<comment> \<open>\<^verbatim>\<open>self.send_error(code, message)\<close>: one write for the headers, one for the page\<close>
  "send_error c code message =
     (case wfile_write c of
        Inl x \<Rightarrow> Inl x
      | Inr c1 \<Rightarrow>
          (case wfile_write c1 of
             Inl x \<Rightarrow> Inl x
           | Inr c2 \<Rightarrow> Inr (ErrorReply code message)))"

definition sse_try :: "env \<Rightarrow> post_request \<Rightarrow> string \<Rightarrow> (exn + http_reply) \<times> nat option" where
  \<comment> \<open>the body of the \<^verbatim>\<open>try\<close> statement, with the client as the body leaves it\<close>
  "sse_try e req data =
     (case json_loads e data of
        Inl x \<Rightarrow> (Inl x, client req)
      | Inr request_data \<Rightarrow>
          (case json_dumps e (Some 2) request_data of
             Inl x \<Rightarrow> (Inl x, client req)
           | Inr logged \<Rightarrow>
               (case sse_dispatch e request_data of
                  Inl x \<Rightarrow> (Inl x, client req)
                | Inr response \<Rightarrow>
                    (case send_json e (client req) response of
                       (Some x, c) \<Rightarrow> (Inl x, c)
                     | (None, c) \<Rightarrow> (Inr (JsonReply 200 response), c)))))"

definition sse_do_POST :: "env \<Rightarrow> post_request \<Rightarrow> server_state \<Rightarrow> (exn + http_reply) \<times> server_state" where
  "sse_do_POST e req s =
     (case content_length e req of
        Inl x \<Rightarrow> (Inl x, s)
      | Inr n \<Rightarrow>
          if n > 0 then
            (case post_data e req of
               Inl x \<Rightarrow> (Inl x, s)
             | Inr data \<Rightarrow>
                 (case sse_try e req data of
                    (Inl x, c) \<Rightarrow>
                      if is_JSONDecodeError x then (send_error c 400 ''Invalid JSON data'', s)
                      else (Inl x, s)
                  | (Inr reply, c) \<Rightarrow> (Inr reply, s)))
          else (send_error (client req) 400 ''Empty request'', s))"

section \<open>SSE sessions\<close>

text \<open>
  A session is one handler running the streaming branch of \<^verbatim>\<open>do_GET\<close>. What it does on
  its connection is the list \<open>out\<close>, oldest first: the events it wrote
  (\<^verbatim>\<open>send_sse_event(event_type, data)\<close>, flushed one by one) and the calls of
  \<^verbatim>\<open>time.sleep\<close>. The peer is the number of writes it still accepts before it
  disconnects, \<open>None\<close> for a peer that stays; the write after the last accepted one
  raises \<^verbatim>\<open>BrokenPipeError\<close>. \<open>tick\<close> counts the iterations done of the running
  \<^verbatim>\<open>for _ in range(30)\<close>, and \<open>consumed\<close> records what \<^verbatim>\<open>event_queue.get\<close> has
  returned to this session. A session is \<open>STREAMING\<close> once the events before the loop
  are written, \<open>CLOSED\<close> when the loop has returned on a disconnect, and \<open>FAILED\<close> when an
  exception has left the handler.
\<close>

datatype sse_action = Emit string json | Sleep nat

datatype sse_state = OPENING | STREAMING | CLOSED | FAILED exn

record session =
  out :: "sse_action list"
  budget :: "nat option"
  tick :: nat
  consumed :: "json list"
  state :: sse_state

fun event_types :: "sse_action list \<Rightarrow> string list" where
  "event_types [] = []"
| "event_types (Emit t d # acts) = t # event_types acts"
| "event_types (Sleep n # acts) = event_types acts"

fun elapsed :: "sse_action list \<Rightarrow> nat" where
  \<comment> \<open>the seconds slept\<close>
  "elapsed [] = 0"
| "elapsed (Emit t d # acts) = elapsed acts"
| "elapsed (Sleep n # acts) = n + elapsed acts"

definition heartbeats :: "sse_action list \<Rightarrow> nat" where
  "heartbeats acts = length (filter (\<lambda>t. t = ''heartbeat'') (event_types acts))"

definition new_session :: "nat option \<Rightarrow> session" where
  "new_session b = \<lparr>out = [], budget = b, tick = 0, consumed = [], state = OPENING\<rparr>"

definition send_sse_event :: "session \<Rightarrow> string \<Rightarrow> json \<Rightarrow> exn + session" where
  "send_sse_event s event_type data =
     (case budget s of
        None \<Rightarrow> Inr (s\<lparr>out := out s @ [Emit event_type data]\<rparr>)
      | Some 0 \<Rightarrow> Inl (BrokenPipeError ''[Errno 32] Broken pipe'')
      | Some (Suc n) \<Rightarrow> Inr (s\<lparr>out := out s @ [Emit event_type data], budget := Some n\<rparr>))"

definition time_sleep :: "nat \<Rightarrow> session \<Rightarrow> session" where
  "time_sleep n s = s\<lparr>out := out s @ [Sleep n]\<rparr>"

fun initial_events :: "session \<Rightarrow> (string \<times> json) list \<Rightarrow> session" where
  \<comment> \<open>\<^verbatim>\<open># Send initial events\<close>: written before the \<^verbatim>\<open>try\<close>, so a failed write leaves the handler\<close>
  "initial_events s [] = s\<lparr>state := STREAMING\<rparr>"
| "initial_events s ((event_type, data) # rest) =
     (case send_sse_event s event_type data of
        Inl x \<Rightarrow> s\<lparr>state := FAILED x\<rparr>
      | Inr s' \<Rightarrow> initial_events s' rest)"

fun stream_except :: "exn \<Rightarrow> session \<Rightarrow> session" where
  \<comment> \<open>\<^verbatim>\<open>except (ConnectionResetError, BrokenPipeError)\<close> around the loop\<close>
  "stream_except (BrokenPipeError m) s = s\<lparr>state := CLOSED\<rparr>"
| "stream_except (ConnectionResetError m) s = s\<lparr>state := CLOSED\<rparr>"
| "stream_except x s = s\<lparr>state := FAILED x\<rparr>"

definition connected_event :: json where
  "connected_event =
     JObj [(''status'', JStr ''connected''),
           (''message'', JStr ''LightRAG MCP Server Connected'')]"

definition heartbeat_event :: "env \<Rightarrow> session \<Rightarrow> json" where
  "heartbeat_event e s =
     JObj [(''type'', JStr ''heartbeat''),
           (''timestamp'', JFloat (time_time e (elapsed (out s))))]"

subsection \<open>\<^verbatim>\<open>mcp_server.py\<close> and \<^verbatim>\<open>simple_mcp_server.py\<close>\<close>

definition mcp_sse_open :: "env \<Rightarrow> nat option \<Rightarrow> session" where
  "mcp_sse_open e b =
     initial_events (new_session b)
       [(''connected'', connected_event),
        (''tools'', JObj [(''type'', JStr ''tools''), (''tools'', mcp_TOOLS)]),
        (''capabilities'', mcp_handle_capabilities e)]"

definition simple_capabilities :: json where
  "simple_capabilities =
     JObj [(''status'', JStr ''ok''),
           (''message'', JStr ''Capabilities retrieved''),
           (''data'', JObj [
              (''capabilities'', JList [JStr ''query'']),
              (''models'', JObj [(''llm'', JStr ''llama3:instruct'')]),
              (''api_version'', JStr ''1.0''),
              (''tools'', simple_TOOLS)])]"

definition simple_sse_open :: "nat option \<Rightarrow> session" where
  "simple_sse_open b =
     initial_events (new_session b)
       [(''connected'', connected_event),
        (''tools'', JObj [(''type'', JStr ''tools''), (''tools'', simple_TOOLS)]),
        (''capabilities'', simple_capabilities)]"

text \<open>
  The loop \<^verbatim>\<open>while True: for _ in range(30): ...\<close> is the same text in both files. One
  tick is one iteration of the inner loop: the non-blocking \<^verbatim>\<open>get\<close>, the \<open>message\<close>
  event when there was one, \<^verbatim>\<open>time.sleep(1)\<close>, and after the thirtieth iteration the
  heartbeat. A tick takes the shared queue and hands it back.
\<close>

definition end_of_tick :: "env \<Rightarrow> session \<Rightarrow> session" where
  \<comment> \<open>\<^verbatim>\<open># Sleep for 1 second\<close>, then \<^verbatim>\<open># Send heartbeat\<close> when the \<^verbatim>\<open>for\<close> loop is exhausted\<close>
  "end_of_tick e s =
     (let s1 = (time_sleep 1 s)\<lparr>tick := tick s + 1\<rparr> in
      if tick s1 = 30 then
        (case send_sse_event s1 ''heartbeat'' (heartbeat_event e s1) of
           Inl x \<Rightarrow> stream_except x s1
         | Inr s2 \<Rightarrow> s2\<lparr>tick := 0\<rparr>)
      else s1)"

definition stream_tick :: "env \<Rightarrow> json list \<times> session \<Rightarrow> json list \<times> session" where
  "stream_tick e qs =
     (case qs of (q, s) \<Rightarrow>
        if state s \<noteq> STREAMING then (q, s)
        else
          (case tryConsume q of
             None \<Rightarrow> (q, end_of_tick e s)
           | Some (event, rest) \<Rightarrow>
               (let s0 = s\<lparr>consumed := consumed s @ [event]\<rparr> in
                case send_sse_event s0 ''message'' event of
                  Inl x \<Rightarrow> (rest, stream_except x s0)
                | Inr s1 \<Rightarrow> (rest, end_of_tick e s1))))"

subsection \<open>\<^verbatim>\<open>sse_server.py\<close>\<close>

definition sse_TOOLS :: json where
  \<comment> \<open>the same literal as in \<^verbatim>\<open>simple_mcp_server.py\<close>\<close>
  "sse_TOOLS = simple_TOOLS"

definition sse_sse_open :: "nat option \<Rightarrow> session" where
  "sse_sse_open b =
     initial_events (new_session b)
       [(''connected'', connected_event),
        (''tools'', JObj [(''tools'', sse_TOOLS)])]"

definition sse_stream_tick :: "env \<Rightarrow> session \<Rightarrow> session" where
  \<comment> \<open>one iteration of \<^verbatim>\<open>while True\<close>: the heartbeat, then \<^verbatim>\<open>time.sleep(5)\<close>\<close>
  "sse_stream_tick e s =
     (if state s \<noteq> STREAMING then s
      else
        (case send_sse_event s ''heartbeat'' (heartbeat_event e s) of
           Inl x \<Rightarrow> stream_except x s
         | Inr s1 \<Rightarrow> time_sleep 5 s1))"

subsection \<open>\<^verbatim>\<open>simple_sse.py\<close>: the generator \<^verbatim>\<open>generate\<close>\<close>

text \<open>
  Each \<^verbatim>\<open>yield\<close> of the generator is one write of the response; when the write
  fails the WSGI server closes the generator.
\<close>

definition flask_TOOLS :: json where
  \<comment> \<open>the same literal as in \<^verbatim>\<open>simple_mcp_server.py\<close>\<close>
  "flask_TOOLS = simple_TOOLS"

definition generate_open :: "nat option \<Rightarrow> session" where
  "generate_open b =
     initial_events (new_session b)
       [(''connected'', connected_event),
        (''tools'', JObj [(''tools'', flask_TOOLS)])]"

definition generate_tick :: "env \<Rightarrow> session \<Rightarrow> session" where
  \<comment> \<open>one iteration of \<^verbatim>\<open>while True\<close>: \<^verbatim>\<open>time.sleep(10)\<close>, then the heartbeat\<close>
  "generate_tick e s =
     (if state s \<noteq> STREAMING then s
      else
        (let s1 = time_sleep 10 s in
         case send_sse_event s1 ''heartbeat'' (heartbeat_event e s1) of
           Inl x \<Rightarrow> stream_except x s1
         | Inr s2 \<Rightarrow> s2))"

section \<open>\<^verbatim>\<open>do_GET\<close>\<close>

text \<open>
  A GET request is its path, its headers and the peer of the connection. The reply is
  an ordinary HTTP reply, or the session that enters the streaming loop.
\<close>

record get_request =
  path :: string
  headers :: "string \<rightharpoonup> string"
  peer :: "nat option"

datatype get_reply = Http http_reply | EventStream session

definition header_get :: "(string \<rightharpoonup> string) \<Rightarrow> string \<Rightarrow> string \<Rightarrow> string" where
  \<comment> \<open>\<^verbatim>\<open>self.headers.get(k, d)\<close>\<close>
  "header_get hs k d = (case hs k of Some v \<Rightarrow> v | None \<Rightarrow> d)"

definition mcp_do_GET :: "env \<Rightarrow> get_request \<Rightarrow> get_reply" where
  "mcp_do_GET e req =
     (if path req = ''/health'' then
        Http (JsonReply 200
          (JObj [(''status'', JStr ''ok''),
                 (''message'', JStr ''LightRAG MCP Server is healthy'')]))
      else
        (let accept_header = header_get (headers req) ''Accept'' [] in
         if contains ''text/event-stream'' accept_header then
           EventStream (mcp_sse_open e (peer req))
         else Http (TextReply 200 ''LightRAG MCP Server Running'')))"

definition simple_do_GET :: "env \<Rightarrow> get_request \<Rightarrow> get_reply" where
  "simple_do_GET e req =
     (let accept_header = header_get (headers req) ''Accept'' [] in
      if contains ''text/event-stream'' accept_header then
        EventStream (simple_sse_open (peer req))
      else if path req = ''/health'' then
        Http (JsonReply 200
          (JObj [(''status'', JStr ''ok''),
                 (''message'', JStr ''LightRAG Simple MCP Server is healthy'')]))
      else if path req = ''/capabilities'' \<or> path req = ''/'' then
        Http (JsonReply 200 simple_capabilities)
      else if path req = ''/tools'' then
        Http (JsonReply 200
          (JObj [(''status'', JStr ''ok''),
                 (''message'', JStr ''Tools retrieved''),
                 (''data'', JObj [(''tools'', simple_TOOLS)])]))
      else Http (TextReply 200 ''LightRAG Simple MCP Server Running''))"

definition sse_do_GET :: "env \<Rightarrow> get_request \<Rightarrow> get_reply" where
  \<comment> \<open>\<^verbatim>\<open># Always respond with SSE format for Cursor\<close>\<close>
  "sse_do_GET e req = EventStream (sse_sse_open (peer req))"

section \<open>Two sessions on one queue\<close>

text \<open>
  \<^verbatim>\<open>queue.Queue\<close> guards \<^verbatim>\<open>get\<close> and \<^verbatim>\<open>put\<close> with its mutex, so the calls of several
  handler threads on the one \<^verbatim>\<open>event_queue\<close> happen one after the other, in some order.
  A schedule is that order for two sessions: it names the session that runs its next
  tick. Nothing but the \<^verbatim>\<open>get\<close> of a tick touches what the sessions share.
\<close>

datatype worker = A | B

fun schedule_step :: "env \<Rightarrow> worker \<Rightarrow> json list \<times> session \<times> session \<Rightarrow> json list \<times> session \<times> session" where
  "schedule_step e A (q, a, b) = (case stream_tick e (q, a) of (q', a') \<Rightarrow> (q', a', b))"
| "schedule_step e B (q, a, b) = (case stream_tick e (q, b) of (q', b') \<Rightarrow> (q', a, b'))"

definition run_schedule :: "env \<Rightarrow> worker list \<Rightarrow> json list \<times> session \<times> session \<Rightarrow> json list \<times> session \<times> session" where
  "run_schedule e sched sys = fold (schedule_step e) sched sys"

section \<open>Shapes of results\<close>

fun lookup :: "json \<Rightarrow> string \<Rightarrow> json option" where
  \<comment> \<open>the value under a key of a result, \<open>None\<close> when the key is absent or the result no dict\<close>
  "lookup (JObj kvs) k = map_of kvs k"
| "lookup v k = None"

fun is_str :: "json option \<Rightarrow> bool" where
  "is_str (Some (JStr s)) = True"
| "is_str v = False"

definition status_and_message :: "json \<Rightarrow> bool" where
  \<comment> \<open>a dict with \<open>status\<close> either \<open>ok\<close> or \<open>error\<close> and a string under \<open>message\<close>\<close>
  "status_and_message r =
     ((lookup r ''status'' = Some (JStr ''ok'') \<or> lookup r ''status'' = Some (JStr ''error''))
      \<and> is_str (lookup r ''message''))"


section \<open>Concrete requests and environments\<close>

text \<open>
  The inputs at which the theorems below are run. The library functions of the example
  environments are given on these inputs only: \<open>example_int\<close> reads the header values
  listed; \<open>example_decode\<close> decodes ASCII bytes to themselves and raises on any other
  byte; \<open>example_loads\<close> parses the documents listed, raises \<^verbatim>\<open>RecursionError\<close> on a text
  of a thousand or more opening brackets and nothing else, and \<^verbatim>\<open>JSONDecodeError\<close> on
  every other text; \<open>example_dumps\<close> never raises (no handler uses the text it returns).
  The backend of \<open>unreachable_env\<close> refuses the connection; the backend of
  \<open>failing_env\<close> answers 500.
\<close>

definition query_request :: json where
  "query_request =
     JObj [(''action'', JStr ''query''),
           (''data'', JObj [(''query'', JStr ''What is VAEBZ?'')])]"

definition empty_query_request :: json where
  "empty_query_request =
     JObj [(''action'', JStr ''query''), (''data'', JObj [(''query'', JStr [])])]"

definition no_data_request :: json where
  "no_data_request = JObj [(''action'', JStr ''query'')]"

definition example_int :: "string \<Rightarrow> exn + int" where
  "example_int v =
     (case map_of [(''56'', 56), (''18'', 18), (''9'', 9), (''2'', 2), (''1000'', 1000)] v of
        Some n \<Rightarrow> Inr n
      | None \<Rightarrow> Inl (ValueError (''invalid literal for int() with base 10: '' @ quoted v)))"

definition example_decode :: "string \<Rightarrow> exn + string" where
  "example_decode b =
     (if list_all (\<lambda>c. (of_char c :: nat) < 128) b then Inr b
      else Inl (UnicodeDecodeError ''invalid start byte''))"

definition example_loads :: "string \<Rightarrow> exn + json" where
  \<open>example_loads body =
     (case map_of [
        (''{"action": "query", "data": {"query": "What is VAEBZ?"}}'', query_request),
        (''{"action": "query", "data": {"query": ""}}'', empty_query_request),
        (''{"action": "query"}'', no_data_request),
        (''{"action": "ping"}'', JObj [(''action'', JStr ''ping'')])] body of
        Some v \<Rightarrow> Inr v
      | None \<Rightarrow>
          if 1000 \<le> length body \<and> list_all (\<lambda>c. c = CHR ''['') body
          then Inl (RecursionError ''maximum recursion depth exceeded while decoding a JSON array from a unicode string'')
          else Inl (JSONDecodeError ''Expecting value''))\<close>

definition example_dumps :: "nat option \<Rightarrow> json \<Rightarrow> exn + string" where
  "example_dumps indent v = Inr []"

definition example_str :: "json \<Rightarrow> string" where
  "example_str v =
     (case v of JNull \<Rightarrow> ''None'' | JBool b \<Rightarrow> (if b then ''True'' else ''False'') | _ \<Rightarrow> [])"

definition unreachable_env :: env where
  "unreachable_env =
     \<lparr>environ = Map.empty,
      py_int = example_int,
      utf8_decode = example_decode,
      json_loads = example_loads,
      json_dumps = example_dumps,
      requests_post = (\<lambda>endpoint payload timeout. Inl (OtherException ''Connection refused'')),
      py_str = example_str,
      time_time = real\<rparr>"

definition failing_env :: env where
  "failing_env =
     \<lparr>environ = Map.empty,
      py_int = example_int,
      utf8_decode = example_decode,
      json_loads = example_loads,
      json_dumps = example_dumps,
      requests_post = (\<lambda>endpoint payload timeout.
         Inr \<lparr>status_code = 500, response_text = ''Internal Server Error'',
              json_body = Inl (OtherException ''Expecting value'')\<rparr>),
      py_str = example_str,
      time_time = real\<rparr>"

definition query_post :: post_request where
  \<open>query_post =
     \<lparr>post_headers = [''Content-Length'' \<mapsto> ''56''],
      rfile = Inr ''{"action": "query", "data": {"query": "What is VAEBZ?"}}'',
      client = None\<rparr>\<close>

definition ping_post :: post_request where
  \<open>ping_post =
     \<lparr>post_headers = [''Content-Length'' \<mapsto> ''18''],
      rfile = Inr ''{"action": "ping"}'',
      client = None\<rparr>\<close>

definition hung_up_ping_post :: post_request where
  \<comment> \<open>the client takes the headers of the reply and disconnects\<close>
  \<open>hung_up_ping_post =
     \<lparr>post_headers = [''Content-Length'' \<mapsto> ''18''],
      rfile = Inr ''{"action": "ping"}'',
      client = Some 1\<rparr>\<close>

definition empty_post :: post_request where
  \<comment> \<open>a POST without body and without \<^verbatim>\<open>Content-Length\<close>\<close>
  "empty_post = \<lparr>post_headers = Map.empty, rfile = Inr [], client = None\<rparr>"

definition malformed_post :: post_request where
  "malformed_post =
     \<lparr>post_headers = [''Content-Length'' \<mapsto> ''9''],
      rfile = Inr ''{not json'',
      client = None\<rparr>"

definition binary_post :: post_request where
  \<comment> \<open>a body of the two bytes \<^verbatim>\<open>ff fe\<close>, which are no UTF-8 text\<close>
  "binary_post =
     \<lparr>post_headers = [''Content-Length'' \<mapsto> ''2''],
      rfile = Inr [CHR 0xFF, CHR 0xFE],
      client = None\<rparr>"

definition deep_post :: post_request where
  \<comment> \<open>a body of a thousand opening brackets\<close>
  "deep_post =
     \<lparr>post_headers = [''Content-Length'' \<mapsto> ''1000''],
      rfile = Inr (replicate 1000 (CHR ''['')),
      client = None\<rparr>"

definition empty_state :: server_state where
  "empty_state = \<lparr>event_queue = [], gateway_calls = []\<rparr>"

definition health_get :: get_request where
  "health_get = \<lparr>path = ''/health'', headers = Map.empty, peer = None\<rparr>"

definition streaming_health_get :: get_request where
  "streaming_health_get =
     \<lparr>path = ''/health'', headers = [''Accept'' \<mapsto> ''text/event-stream''], peer = None\<rparr>"

section \<open>Results carry a status and a message\<close>

lemma status_and_message_dict:
  "status_and_message (JObj ((''status'', JStr ''ok'') # (''message'', JStr m) # rest))"
  "status_and_message (JObj ((''status'', JStr ''error'') # (''message'', JStr m) # rest))"
  by (simp_all add: status_and_message_def)

lemma mcp_handle_query_shape: "status_and_message (fst (mcp_handle_query e d))"
  by (simp add: mcp_handle_query_def status_and_message_dict query_exception_def
        no_query_provided_def query_fallback_def Let_def split: sum.split)

lemma mcp_handle_embedding_shape: "status_and_message (fst (mcp_handle_embedding e d))"
  by (simp add: mcp_handle_embedding_def status_and_message_dict embedding_exception_def
        embedding_fallback_def Let_def split: sum.split)

lemma mcp_dispatch_shape:
  assumes "mcp_dispatch e d = Inr (r, c)"
  shows "status_and_message r"
proof -
  have q: "mcp_handle_query e d = (r, c) \<Longrightarrow> status_and_message r"
    using mcp_handle_query_shape [of e d] by simp
  have m: "mcp_handle_embedding e d = (r, c) \<Longrightarrow> status_and_message r"
    using mcp_handle_embedding_shape [of e d] by simp
  from assms show ?thesis
    by (auto simp: mcp_dispatch_def status_and_message_dict mcp_handle_capabilities_def
          mcp_handle_get_tools_def mcp_default_response_def q m
        split: sum.splits if_splits)
qed

lemma send_and_publish_reply:
  assumes "send_and_publish e req response calls s = (Inr (JsonReply c r), s')"
  shows "r = response"
  using assms by (auto simp: send_and_publish_def Let_def split: option.splits)

lemma mcp_try_shape:
  assumes "mcp_try e data = Inr (r, calls)"
  shows "status_and_message r"
  using assms mcp_dispatch_shape [of e]
  by (auto simp: mcp_try_def split: sum.splits)

lemma mcp_do_POST_shape:
  assumes "mcp_do_POST e req s = (Inr (JsonReply c r), s')"
  shows "status_and_message r"
proof -
  have i: "status_and_message invalid_json_data"
    by (simp add: invalid_json_data_def status_and_message_dict)
  have d: "status_and_message (mcp_default_response ''Empty request'')"
    by (simp add: mcp_default_response_def status_and_message_dict)
  from assms show ?thesis
    using i d mcp_try_shape [of e]
    by (auto simp: mcp_do_POST_def split: sum.splits if_splits prod.splits
        dest!: send_and_publish_reply)
qed

lemma canned_query_result_shape:
  assumes "canned_query_result e q = Inr r"
  shows "status_and_message r"
  using assms by (auto simp: canned_query_result_def status_and_message_dict split: sum.splits)

lemma simple_handle_query_shape:
  assumes "simple_handle_query e d = Inr r"
  shows "status_and_message r"
  using assms canned_query_result_shape [of e]
  by (auto simp: simple_handle_query_def status_and_message_dict split: sum.splits if_splits)

lemma sse_handle_query_shape:
  assumes "sse_handle_query e d = Inr r"
  shows "status_and_message r"
  using assms canned_query_result_shape [of e]
  by (auto simp: sse_handle_query_def status_and_message_dict split: sum.splits if_splits)

lemma simple_dispatch_shape:
  assumes "simple_dispatch e d = Inr r"
  shows "status_and_message r"
  using assms simple_handle_query_shape [of e d]
  by (auto simp: simple_dispatch_def status_and_message_dict split: sum.splits if_splits)

lemma simple_try_shape:
  assumes "simple_try e data = Inr r"
  shows "status_and_message r"
  using assms simple_dispatch_shape [of e]
  by (auto simp: simple_try_def split: sum.splits)

lemma simple_do_POST_shape:
  assumes "simple_do_POST e req s = (Inr (JsonReply c r), s')"
  shows "status_and_message r"
proof -
  have i: "status_and_message invalid_json_data"
    by (simp add: invalid_json_data_def status_and_message_dict)
  have d: "status_and_message
             (JObj [(''status'', JStr ''ok''), (''message'', JStr ''Empty request''),
                    (''data'', JObj [])])"
    by (simp add: status_and_message_dict)
  from assms show ?thesis
    using i d simple_try_shape [of e]
    by (auto simp: simple_do_POST_def split: sum.splits if_splits
        dest!: send_and_publish_reply)
qed

lemma sse_dispatch_shape:
  assumes "sse_dispatch e d = Inr r"
  shows "status_and_message r"
  using assms sse_handle_query_shape [of e d]
  by (auto simp: sse_dispatch_def status_and_message_dict split: sum.splits if_splits)

lemma send_error_reply:
  assumes "send_error c code message = Inr reply"
  shows "reply = ErrorReply code message"
  using assms by (auto simp: send_error_def split: sum.splits)

lemma sse_try_shape:
  assumes "sse_try e req data = (Inr (JsonReply c r), c')"
  shows "status_and_message r"
  using assms sse_dispatch_shape [of e]
  by (auto simp: sse_try_def split: sum.splits prod.splits option.splits)

lemma sse_do_POST_shape:
  assumes "sse_do_POST e req s = (Inr (JsonReply c r), s')"
  shows "status_and_message r"
  using assms sse_try_shape [of e req]
  by (auto simp: sse_do_POST_def split: sum.splits if_splits prod.splits
      dest!: send_error_reply)

text \<open>
  Claim C9. Every result that a dispatch path produces is a dict whose \<open>status\<close> is
  \<open>ok\<close> or \<open>error\<close> and whose \<open>message\<close> is a string: the results of the four action
  handlers of \<^verbatim>\<open>mcp_server.py\<close>, its default acknowledgment, the result of its
  malformed-JSON branch, and every JSON body that \<^verbatim>\<open>do_POST\<close> of \<^verbatim>\<open>mcp_server.py\<close>,
  of \<^verbatim>\<open>simple_mcp_server.py\<close> and of \<^verbatim>\<open>sse_server.py\<close> replies with (among them the
  empty-body branch), as well as every result that \<^verbatim>\<open>handle_query\<close> of
  \<^verbatim>\<open>sse_server.py\<close> returns.
\<close>

theorem results_have_status_and_message:
  "status_and_message (fst (mcp_handle_query e d))
   \<and> status_and_message (fst (mcp_handle_embedding e d))
   \<and> status_and_message (mcp_handle_capabilities e)
   \<and> status_and_message mcp_handle_get_tools
   \<and> status_and_message (mcp_default_response m)
   \<and> status_and_message invalid_json_data
   \<and> (mcp_do_POST e req s = (Inr (JsonReply c r), s') \<longrightarrow> status_and_message r)
   \<and> (simple_do_POST e req s = (Inr (JsonReply c r), s') \<longrightarrow> status_and_message r)
   \<and> (sse_handle_query e d = Inr r \<longrightarrow> status_and_message r)
   \<and> (sse_do_POST e req s = (Inr (JsonReply c r), s') \<longrightarrow> status_and_message r)"
  using mcp_handle_query_shape [of e d] mcp_handle_embedding_shape [of e d]
    mcp_do_POST_shape [where e = e and req = req and s = s and c = c and r = r and s' = s']
    simple_do_POST_shape [where e = e and req = req and s = s and c = c and r = r and s' = s']
    sse_handle_query_shape [where e = e and d = d and r = r]
    sse_do_POST_shape [where e = e and req = req and s = s and c = c and r = r and s' = s']
  by (simp add: status_and_message_dict mcp_handle_capabilities_def mcp_handle_get_tools_def
        mcp_default_response_def invalid_json_data_def)

lemma example_send_json:
  assumes "json_dumps e = example_dumps"
  shows "send_json e None response = (None, None)"
  using assms by (simp add: send_json_def wfile_write_def example_dumps_def)

lemma example_requests:
  "content_length unreachable_env malformed_post = Inr 9"
  "post_data unreachable_env malformed_post = Inr ''{not json''"
  "json_loads unreachable_env ''{not json'' = Inl (JSONDecodeError ''Expecting value'')"
  "content_length failing_env malformed_post = Inr 9"
  "post_data failing_env malformed_post = Inr ''{not json''"
  "json_loads failing_env ''{not json'' = Inl (JSONDecodeError ''Expecting value'')"
  \<open>content_length unreachable_env ping_post = Inr 18\<close>
  \<open>post_data unreachable_env ping_post = Inr ''{"action": "ping"}''\<close>
  \<open>json_loads unreachable_env ''{"action": "ping"}'' = Inr (JObj [(''action'', JStr ''ping'')])\<close>
  \<open>content_length unreachable_env hung_up_ping_post = Inr 18\<close>
  \<open>post_data unreachable_env hung_up_ping_post = Inr ''{"action": "ping"}''\<close>
  \<open>content_length failing_env query_post = Inr 56\<close>
  \<open>post_data failing_env query_post
     = Inr ''{"action": "query", "data": {"query": "What is VAEBZ?"}}''\<close>
  \<open>json_loads failing_env ''{"action": "query", "data": {"query": "What is VAEBZ?"}}''
     = Inr query_request\<close>
  "json_dumps unreachable_env = example_dumps"
  "json_dumps failing_env = example_dumps"
  "content_length failing_env empty_post = Inr 0"
  "client empty_post = None"
  "content_length failing_env binary_post = Inr 2"
  "post_data failing_env binary_post = Inl (UnicodeDecodeError ''invalid start byte'')"
  "content_length failing_env deep_post = Inr 1000"
  "client binary_post = None"
  "client deep_post = None"
  "client malformed_post = None"
  "client ping_post = None"
  "client query_post = None"
  "client hung_up_ping_post = Some 1"
  by (simp_all add: content_length_def post_data_def unreachable_env_def failing_env_def
        malformed_post_def ping_post_def hung_up_ping_post_def query_post_def
        empty_post_def binary_post_def deep_post_def
        example_int_def example_decode_def example_loads_def)

theorem results_have_status_and_message_witness:
  "mcp_do_POST unreachable_env malformed_post empty_state =
     (Inr (JsonReply 200 invalid_json_data),
      \<lparr>event_queue = [invalid_json_data], gateway_calls = []\<rparr>)
   \<and> simple_do_POST unreachable_env malformed_post empty_state =
     (Inr (JsonReply 200 invalid_json_data),
      \<lparr>event_queue = [invalid_json_data], gateway_calls = []\<rparr>)
   \<and> status_and_message invalid_json_data
   \<and> sse_handle_query unreachable_env no_data_request =
     Inr (JObj [(''status'', JStr ''error''), (''message'', JStr ''No query provided'')])
   \<and> sse_do_POST unreachable_env ping_post empty_state =
     (Inr (JsonReply 200
            (JObj [(''status'', JStr ''ok''), (''message'', JStr ''Request received''),
                   (''data'', JObj [])])),
      empty_state)
   \<and> status_and_message
        (JObj [(''status'', JStr ''error''), (''message'', JStr ''No query provided'')])
   \<and> status_and_message
        (JObj [(''status'', JStr ''ok''), (''message'', JStr ''Request received''),
               (''data'', JObj [])])"
proof -
  have m: "mcp_do_POST unreachable_env malformed_post empty_state =
     (Inr (JsonReply 200 invalid_json_data),
      \<lparr>event_queue = [invalid_json_data], gateway_calls = []\<rparr>)"
    by (simp add: mcp_do_POST_def mcp_try_def example_requests send_and_publish_def
          example_send_json publish_def empty_state_def)
  have s: "simple_do_POST unreachable_env malformed_post empty_state =
     (Inr (JsonReply 200 invalid_json_data),
      \<lparr>event_queue = [invalid_json_data], gateway_calls = []\<rparr>)"
    by (simp add: simple_do_POST_def simple_try_def example_requests send_and_publish_def
          example_send_json publish_def empty_state_def)
  have q: "sse_handle_query unreachable_env no_data_request =
     Inr (JObj [(''status'', JStr ''error''), (''message'', JStr ''No query provided'')])"
    by (simp add: sse_handle_query_def no_data_request_def)
  have p: "sse_do_POST unreachable_env ping_post empty_state =
     (Inr (JsonReply 200
            (JObj [(''status'', JStr ''ok''), (''message'', JStr ''Request received''),
                   (''data'', JObj [])])),
      empty_state)"
    by (simp add: sse_do_POST_def sse_try_def example_requests example_dumps_def
          example_send_json sse_dispatch_def)
  show ?thesis
    using m s q p
      results_have_status_and_message [where e = unreachable_env and d = no_data_request
        and m = "[]" and req = malformed_post and s = empty_state and c = 200
        and r = invalid_json_data
        and s' = "\<lparr>event_queue = [invalid_json_data], gateway_calls = []\<rparr>"]
      results_have_status_and_message [where e = unreachable_env and d = no_data_request
        and m = "[]" and req = ping_post and s = empty_state and c = 200
        and r = "JObj [(''status'', JStr ''ok''), (''message'', JStr ''Request received''),
               (''data'', JObj [])]" and s' = empty_state]
      results_have_status_and_message [where e = unreachable_env and d = no_data_request
        and m = "[]" and req = ping_post and s = empty_state and c = 200
        and r = "JObj [(''status'', JStr ''error''), (''message'', JStr ''No query provided'')]"
        and s' = empty_state]
    by simp
qed
section \<open>Requests without query text\<close>


text \<open>
  Claim C10. A query request that has no \<open>data\<close> field at all gets, from
  \<^verbatim>\<open>handle_query\<close> of \<^verbatim>\<open>mcp_server.py\<close>, of \<^verbatim>\<open>simple_mcp_server.py\<close> and of
  \<^verbatim>\<open>sse_server.py\<close>, the validation error that the same request gets once the field
  \<^verbatim>\<open>"data": {"query": ""}\<close> is added to it. The handler returns (\<open>Inr\<close>, and a plain
  result for \<^verbatim>\<open>mcp_server.py\<close>): no exception is raised, and no call goes out.
\<close>

theorem absent_data_is_empty_query:
  assumes "map_of kvs ''data'' = None"
  shows "mcp_handle_query e (JObj kvs) = (no_query_provided, [])
       \<and> mcp_handle_query e (JObj ((''data'', JObj [(''query'', JStr [])]) # kvs))
           = (no_query_provided, [])
       \<and> simple_handle_query e (JObj kvs) = Inr no_query_provided
       \<and> simple_handle_query e (JObj ((''data'', JObj [(''query'', JStr [])]) # kvs))
           = Inr no_query_provided
       \<and> sse_handle_query e (JObj kvs)
           = Inr (JObj [(''status'', JStr ''error''), (''message'', JStr ''No query provided'')])
       \<and> sse_handle_query e (JObj ((''data'', JObj [(''query'', JStr [])]) # kvs))
           = Inr (JObj [(''status'', JStr ''error''), (''message'', JStr ''No query provided'')])"
  using assms
  by (simp add: mcp_handle_query_def simple_handle_query_def sse_handle_query_def
        no_query_provided_def)

theorem absent_data_is_empty_query_witness:
  "map_of [(''action'', JStr ''query'')] ''data'' = None
   \<and> mcp_handle_query unreachable_env no_data_request = (no_query_provided, [])
   \<and> mcp_handle_query unreachable_env no_data_request
       = mcp_handle_query unreachable_env
           (JObj [(''data'', JObj [(''query'', JStr [])]), (''action'', JStr ''query'')])
   \<and> simple_handle_query unreachable_env no_data_request = Inr no_query_provided
   \<and> sse_handle_query unreachable_env no_data_request
       = Inr (JObj [(''status'', JStr ''error''), (''message'', JStr ''No query provided'')])"
proof -
  have h: "map_of [(''action'', JStr ''query'')] ''data'' = None" by simp
  show ?thesis
    using h absent_data_is_empty_query [OF h, of unreachable_env]
    by (simp add: no_data_request_def)
qed




section \<open>Malformed bodies and the event queue\<close>

lemma deep_post_raises:
  "post_data failing_env deep_post = Inr (replicate 1000 (CHR ''[''))"
  "json_loads failing_env (replicate 1000 (CHR ''[''))
     = Inl (RecursionError ''maximum recursion depth exceeded while decoding a JSON array from a unicode string'')"
proof -
  have ascii: "list_all (\<lambda>c. (of_char c :: nat) < 128) (replicate 1000 (CHR ''[''))"
    by (simp add: list_all_iff)
  then show "post_data failing_env deep_post = Inr (replicate 1000 (CHR ''[''))"
    by (simp add: post_data_def failing_env_def deep_post_def example_decode_def)
  have brackets: "list_all (\<lambda>c. c = CHR ''['') (replicate 1000 (CHR ''[''))"
    by (simp add: list_all_iff)
  have len: "length (replicate 1000 (CHR ''['')) = 1000"
    by (rule length_replicate)
  have no_brace: "replicate 1000 (CHR ''['') \<noteq> CHR ''{'' # cs" for cs
  proof
    assume "replicate 1000 (CHR ''['') = CHR ''{'' # cs"
    then have "CHR ''{'' \<in> set (replicate 1000 (CHR ''[''))"
      by (metis list.set_intros(1))
    then show False by simp
  qed
  have "example_loads (replicate 1000 (CHR ''[''))
     = Inl (RecursionError ''maximum recursion depth exceeded while decoding a JSON array from a unicode string'')"
    unfolding example_loads_def
    using brackets len no_brace no_brace [symmetric] by simp
  then show "json_loads failing_env (replicate 1000 (CHR ''[''))
     = Inl (RecursionError ''maximum recursion depth exceeded while decoding a JSON array from a unicode string'')"
    by (simp add: failing_env_def)
qed

text \<open>
  Claim C3, as the claim states it, fails on \<^verbatim>\<open>mcp_server.py\<close>: the result of the
  malformed-JSON branch reaches \<^verbatim>\<open>event_queue.put(response)\<close> like every other result,
  so one Event is published.
\<close>

theorem mcp_malformed_json_is_published:
  "mcp_do_POST unreachable_env malformed_post \<lparr>event_queue = [], gateway_calls = []\<rparr>
     = (Inr (JsonReply 200
              (JObj [(''status'', JStr ''error''), (''message'', JStr ''Invalid JSON data'')])),
        \<lparr>event_queue =
           [JObj [(''status'', JStr ''error''), (''message'', JStr ''Invalid JSON data'')]],
         gateway_calls = []\<rparr>)"
  by (simp add: mcp_do_POST_def mcp_try_def example_requests send_and_publish_def
        example_send_json publish_def invalid_json_data_def)

text \<open>
  Claim C3, amended. For every POST with a positive \<^verbatim>\<open>Content-Length\<close>:
  when the body is UTF-8 text on which \<^verbatim>\<open>json.loads\<close> raises \<^verbatim>\<open>JSONDecodeError\<close>,
  \<^verbatim>\<open>mcp_server.py\<close> replies 200 with the body \<open>status: error\<close>,
  \<open>message: Invalid JSON data\<close> and, the reply sent, publishes that body as one Event at
  the tail of the queue (a reply that cannot be sent raises, and nothing is
  published), and \<^verbatim>\<open>sse_server.py\<close> answers with \<^verbatim>\<open>send_error(400, "Invalid JSON data")\<close>
  and leaves the state of the process as it was. When the body cannot be read or is
  no UTF-8 text, or \<^verbatim>\<open>json.loads\<close> raises another exception than \<^verbatim>\<open>JSONDecodeError\<close>
  (\<^verbatim>\<open>RecursionError\<close> on deep nesting, for one), that exception leaves \<^verbatim>\<open>do_POST\<close> of
  both servers: there is no reply, and nothing is published.
\<close>

theorem malformed_json_reply:
  assumes "content_length e req = Inr n" and "0 < n"
  shows "(post_data e req = Inr body \<and> json_loads e body = Inl (JSONDecodeError m) \<longrightarrow>
           (fst (send_json e (client req)
                   (JObj [(''status'', JStr ''error''),
                          (''message'', JStr ''Invalid JSON data'')])) = None \<longrightarrow>
              mcp_do_POST e req s
                = (Inr (JsonReply 200
                         (JObj [(''status'', JStr ''error''),
                                (''message'', JStr ''Invalid JSON data'')])),
                   s\<lparr>event_queue := event_queue s @
                       [JObj [(''status'', JStr ''error''),
                              (''message'', JStr ''Invalid JSON data'')]]\<rparr>))
         \<and> (fst (send_json e (client req)
                   (JObj [(''status'', JStr ''error''),
                          (''message'', JStr ''Invalid JSON data'')])) = Some x \<longrightarrow>
              mcp_do_POST e req s = (Inl x, s))
         \<and> sse_do_POST e req s = (send_error (client req) 400 ''Invalid JSON data'', s)
         \<and> (client req = None \<longrightarrow>
              sse_do_POST e req s = (Inr (ErrorReply 400 ''Invalid JSON data''), s)))
       \<and> (post_data e req = Inl x \<longrightarrow>
             mcp_do_POST e req s = (Inl x, s) \<and> sse_do_POST e req s = (Inl x, s))
       \<and> (post_data e req = Inr body \<and> json_loads e body = Inl x
             \<and> \<not> is_JSONDecodeError x \<longrightarrow>
             mcp_do_POST e req s = (Inl x, s) \<and> sse_do_POST e req s = (Inl x, s))"
  using assms
  by (simp add: mcp_do_POST_def mcp_try_def sse_do_POST_def sse_try_def send_and_publish_def
        publish_def invalid_json_data_def send_error_def wfile_write_def)

theorem malformed_json_reply_witness:
  "content_length failing_env malformed_post = Inr 9 \<and> (0::int) < 9
   \<and> post_data failing_env malformed_post = Inr ''{not json''
   \<and> json_loads failing_env ''{not json'' = Inl (JSONDecodeError ''Expecting value'')
   \<and> mcp_do_POST failing_env malformed_post empty_state
       = (Inr (JsonReply 200
                (JObj [(''status'', JStr ''error''), (''message'', JStr ''Invalid JSON data'')])),
          \<lparr>event_queue =
             [JObj [(''status'', JStr ''error''), (''message'', JStr ''Invalid JSON data'')]],
           gateway_calls = []\<rparr>)
   \<and> sse_do_POST failing_env malformed_post empty_state
       = (Inr (ErrorReply 400 ''Invalid JSON data''), empty_state)
   \<and> post_data failing_env binary_post = Inl (UnicodeDecodeError ''invalid start byte'')
   \<and> mcp_do_POST failing_env binary_post empty_state
       = (Inl (UnicodeDecodeError ''invalid start byte''), empty_state)
   \<and> sse_do_POST failing_env binary_post empty_state
       = (Inl (UnicodeDecodeError ''invalid start byte''), empty_state)
   \<and> \<not> is_JSONDecodeError (RecursionError ''maximum recursion depth exceeded while decoding a JSON array from a unicode string'')
   \<and> mcp_do_POST failing_env deep_post empty_state
       = (Inl (RecursionError ''maximum recursion depth exceeded while decoding a JSON array from a unicode string''),
          empty_state)
   \<and> sse_do_POST failing_env deep_post empty_state
       = (Inl (RecursionError ''maximum recursion depth exceeded while decoding a JSON array from a unicode string''),
          empty_state)"
proof -
  have h1: "content_length failing_env malformed_post = Inr 9" and h2: "(0::int) < 9"
    and b1: "content_length failing_env binary_post = Inr 2" and b2: "(0::int) < 2"
    and d1: "content_length failing_env deep_post = Inr 1000" and d2: "(0::int) < 1000"
    by (simp_all add: example_requests)
  have sent: "fst (send_json failing_env (client malformed_post)
                (JObj [(''status'', JStr ''error''), (''message'', JStr ''Invalid JSON data'')]))
              = None"
    by (simp add: example_requests example_send_json)
  note at_malformed = malformed_json_reply [OF h1 h2, where body = "''{not json''"
      and m = "''Expecting value''" and s = empty_state]
  note at_binary = malformed_json_reply [OF b1 b2,
      where x = "UnicodeDecodeError ''invalid start byte''" and s = empty_state]
  note at_deep = malformed_json_reply [OF d1 d2, where body = "replicate 1000 (CHR ''['')"
      and x = "RecursionError ''maximum recursion depth exceeded while decoding a JSON array from a unicode string''"
      and s = empty_state]
  from at_malformed sent have c1:
    "mcp_do_POST failing_env malformed_post empty_state
       = (Inr (JsonReply 200
                (JObj [(''status'', JStr ''error''), (''message'', JStr ''Invalid JSON data'')])),
          \<lparr>event_queue =
             [JObj [(''status'', JStr ''error''), (''message'', JStr ''Invalid JSON data'')]],
           gateway_calls = []\<rparr>)
     \<and> sse_do_POST failing_env malformed_post empty_state
       = (Inr (ErrorReply 400 ''Invalid JSON data''), empty_state)"
    by (simp add: example_requests empty_state_def send_error_def wfile_write_def)
  from at_binary have c2:
    "mcp_do_POST failing_env binary_post empty_state
       = (Inl (UnicodeDecodeError ''invalid start byte''), empty_state)
     \<and> sse_do_POST failing_env binary_post empty_state
       = (Inl (UnicodeDecodeError ''invalid start byte''), empty_state)"
    by (simp add: example_requests)
  from at_deep have c3:
    "mcp_do_POST failing_env deep_post empty_state
       = (Inl (RecursionError ''maximum recursion depth exceeded while decoding a JSON array from a unicode string''),
          empty_state)
     \<and> sse_do_POST failing_env deep_post empty_state
       = (Inl (RecursionError ''maximum recursion depth exceeded while decoding a JSON array from a unicode string''),
          empty_state)"
    by (simp add: deep_post_raises)
  from c1 c2 c3 show ?thesis
    by (simp add: example_requests)
qed

section \<open>Publishing the result of a POST\<close>

text \<open>
  Claim C2, as the claim states it, fails on \<^verbatim>\<open>sse_server.py\<close>, which has no event
  queue: its \<^verbatim>\<open>do_POST\<close> answers a dispatched request and publishes nothing.
\<close>

theorem sse_do_POST_publishes_nothing:
  "sse_do_POST unreachable_env ping_post \<lparr>event_queue = [], gateway_calls = []\<rparr>
     = (Inr (JsonReply 200
              (JObj [(''status'', JStr ''ok''), (''message'', JStr ''Request received''),
                     (''data'', JObj [])])),
        \<lparr>event_queue = [], gateway_calls = []\<rparr>)"
  by (simp add: sse_do_POST_def sse_try_def example_requests example_dumps_def
        example_send_json sse_dispatch_def)

lemma send_and_publish_cases:
  "(fst (send_json e (client req) response) = None \<longrightarrow>
      send_and_publish e req response calls s
        = (Inr (JsonReply 200 response),
           s\<lparr>gateway_calls := gateway_calls s @ calls,
             event_queue := event_queue s @ [response]\<rparr>))
   \<and> (fst (send_json e (client req) response) = Some x \<longrightarrow>
      send_and_publish e req response calls s
        = (Inl x, s\<lparr>gateway_calls := gateway_calls s @ calls\<rparr>))"
  by (simp add: send_and_publish_def publish_def Let_def)

lemma send_and_publish_sent:
  assumes "send_and_publish e req response calls s = (Inr reply, s')"
  shows "reply = JsonReply 200 response \<and> event_queue s' = event_queue s @ [response]"
  using assms
  by (auto simp: send_and_publish_def publish_def Let_def split: option.splits)

lemma send_and_publish_raised:
  assumes "send_and_publish e req response calls s = (Inl x, s')"
  shows "event_queue s' = event_queue s"
  using assms
  by (auto simp: send_and_publish_def publish_def Let_def split: option.splits)

lemma mcp_do_POST_publishes:
  assumes "mcp_do_POST e req s = (Inr reply, s')"
  shows "\<exists>r. reply = JsonReply 200 r \<and> event_queue s' = event_queue s @ [r]"
  using assms
  by (auto simp: mcp_do_POST_def split: sum.splits if_splits prod.splits
      dest!: send_and_publish_sent)

lemma mcp_do_POST_raised:
  assumes "mcp_do_POST e req s = (Inl x, s')"
  shows "event_queue s' = event_queue s"
  using assms
  by (auto simp: mcp_do_POST_def split: sum.splits if_splits prod.splits
      dest!: send_and_publish_raised)

lemma mcp_dispatch_dict: "\<exists>r calls. mcp_dispatch e (JObj kvs) = Inr (r, calls)"
proof (cases "''action'' \<in> set (map fst kvs)")
  case True
  then show ?thesis
    by (cases "mcp_handle_query e (JObj kvs)"; cases "mcp_handle_embedding e (JObj kvs)")
       (simp add: mcp_dispatch_def)
next
  case False
  then show ?thesis by (simp add: mcp_dispatch_def)
qed

lemma mcp_do_POST_dispatched:
  assumes "content_length e req = Inr n" and "0 < n" and "post_data e req = Inr body"
    and "json_loads e body = Inr request_data"
    and "json_dumps e (Some 2) request_data = Inr logged"
    and "mcp_dispatch e request_data = Inr (r, calls)"
  shows "mcp_do_POST e req s = send_and_publish e req r calls s"
  using assms by (simp add: mcp_do_POST_def mcp_try_def)

lemma mcp_do_POST_number:
  assumes "content_length e req = Inr n" and "0 < n" and "post_data e req = Inr body"
    and "json_loads e body = Inr (JInt i)"
    and "json_dumps e (Some 2) (JInt i) = Inr logged"
  shows "mcp_do_POST e req s
           = (Inl (TypeError (''argument of type '' @ quoted ''int'' @ '' is not iterable'')), s)"
  using assms by (simp add: mcp_do_POST_def mcp_try_def mcp_dispatch_def)

lemma sse_do_POST_state: "snd (sse_do_POST e req s) = s"
  by (simp add: sse_do_POST_def split: sum.splits prod.splits)

text \<open>
  Claim C2, amended. In \<^verbatim>\<open>mcp_server.py\<close>, a POST to which \<^verbatim>\<open>do_POST\<close> has sent its
  reply has been answered with status 200 and a JSON result, and exactly one Event,
  that result, has been put at the tail of the Event Queue; a POST whose \<^verbatim>\<open>do_POST\<close>
  an exception has left (the header that is no number, the body that is no UTF-8
  text, \<^verbatim>\<open>json.loads\<close> or the logging line raising, the dispatch raising, the reply that
  cannot be sent) has published nothing. For a request that is read, parsed and logged,
  the result is the result of the dispatcher on the parsed request: it is sent and
  then published, and when it cannot be sent nothing is published, the outbound calls
  of the dispatch having been made. The dispatcher returns a result for every JSON
  object, whatever its \<open>action\<close> and whether the action succeeded. A POST whose
  \<^verbatim>\<open>Content-Length\<close> is absent or not positive is answered, and published, with the
  acknowledgment \<open>Empty request\<close>. In \<^verbatim>\<open>sse_server.py\<close> there is no Event Queue: a
  POST leaves the state of the process as it was.
\<close>

theorem post_publishes_its_result:
  "(mcp_do_POST e req s = (Inr reply, s') \<longrightarrow>
      (\<exists>r. reply = JsonReply 200 r \<and> event_queue s' = event_queue s @ [r]))
   \<and> (mcp_do_POST e req s = (Inl x, s') \<longrightarrow> event_queue s' = event_queue s)
   \<and> (content_length e req = Inr n \<and> 0 < n \<and> post_data e req = Inr body
        \<and> json_loads e body = Inr request_data
        \<and> json_dumps e (Some 2) request_data = Inr logged
        \<and> mcp_dispatch e request_data = Inr (r, calls) \<longrightarrow>
      (fst (send_json e (client req) r) = None \<longrightarrow>
         mcp_do_POST e req s
           = (Inr (JsonReply 200 r),
              s\<lparr>gateway_calls := gateway_calls s @ calls,
                event_queue := event_queue s @ [r]\<rparr>))
      \<and> (fst (send_json e (client req) r) = Some x \<longrightarrow>
         mcp_do_POST e req s = (Inl x, s\<lparr>gateway_calls := gateway_calls s @ calls\<rparr>)))
   \<and> (\<exists>r calls. mcp_dispatch e (JObj kvs) = Inr (r, calls))
   \<and> (content_length e req = Inr n \<and> n \<le> 0
        \<and> fst (send_json e (client req) (mcp_default_response ''Empty request'')) = None \<longrightarrow>
      mcp_do_POST e req s
        = (Inr (JsonReply 200 (mcp_default_response ''Empty request'')),
           s\<lparr>event_queue := event_queue s @ [mcp_default_response ''Empty request'']\<rparr>))
   \<and> snd (sse_do_POST e req s) = s"
proof -
  have c3: "content_length e req = Inr n \<and> 0 < n \<and> post_data e req = Inr body
        \<and> json_loads e body = Inr request_data
        \<and> json_dumps e (Some 2) request_data = Inr logged
        \<and> mcp_dispatch e request_data = Inr (r, calls) \<longrightarrow>
      (fst (send_json e (client req) r) = None \<longrightarrow>
         mcp_do_POST e req s
           = (Inr (JsonReply 200 r),
              s\<lparr>gateway_calls := gateway_calls s @ calls,
                event_queue := event_queue s @ [r]\<rparr>))
      \<and> (fst (send_json e (client req) r) = Some x \<longrightarrow>
         mcp_do_POST e req s = (Inl x, s\<lparr>gateway_calls := gateway_calls s @ calls\<rparr>))"
    using mcp_do_POST_dispatched [where e = e and req = req and n = n and body = body
        and request_data = request_data and logged = logged and r = r and calls = calls
        and s = s]
      send_and_publish_cases [where e = e and req = req and response = r and calls = calls
        and s = s and x = x]
    by simp
  have c5: "content_length e req = Inr n \<and> n \<le> 0
        \<and> fst (send_json e (client req) (mcp_default_response ''Empty request'')) = None \<longrightarrow>
      mcp_do_POST e req s
        = (Inr (JsonReply 200 (mcp_default_response ''Empty request'')),
           s\<lparr>event_queue := event_queue s @ [mcp_default_response ''Empty request'']\<rparr>)"
    by (simp add: mcp_do_POST_def send_and_publish_def publish_def)
  from c3 c5 show ?thesis
    using mcp_do_POST_publishes [where e = e and req = req and s = s and reply = reply
        and s' = s']
      mcp_do_POST_raised [where e = e and req = req and s = s and x = x and s' = s']
      mcp_dispatch_dict [where e = e and kvs = kvs]
      sse_do_POST_state [where e = e and req = req and s = s]
    by blast
qed

theorem post_publishes_its_result_witness:
  \<open>content_length unreachable_env ping_post = Inr 18 \<and> (0::int) < 18
   \<and> post_data unreachable_env ping_post = Inr ''{"action": "ping"}''
   \<and> json_loads unreachable_env ''{"action": "ping"}'' = Inr (JObj [(''action'', JStr ''ping'')])
   \<and> json_dumps unreachable_env (Some 2) (JObj [(''action'', JStr ''ping'')]) = Inr []
   \<and> mcp_dispatch unreachable_env (JObj [(''action'', JStr ''ping'')])
       = Inr (mcp_default_response ''Action 'ping' acknowledged'', [])
   \<and> fst (send_json unreachable_env (client ping_post)
            (mcp_default_response ''Action 'ping' acknowledged'')) = None
   \<and> mcp_do_POST unreachable_env ping_post empty_state
       = (Inr (JsonReply 200 (mcp_default_response ''Action 'ping' acknowledged'')),
          \<lparr>event_queue = [mcp_default_response ''Action 'ping' acknowledged''],
           gateway_calls = []\<rparr>)
   \<and> fst (send_json unreachable_env (client hung_up_ping_post)
            (mcp_default_response ''Action 'ping' acknowledged''))
       = Some (BrokenPipeError ''[Errno 32] Broken pipe'')
   \<and> mcp_do_POST unreachable_env hung_up_ping_post empty_state
       = (Inl (BrokenPipeError ''[Errno 32] Broken pipe''), empty_state)
   \<and> event_queue (snd (mcp_do_POST unreachable_env hung_up_ping_post empty_state)) = []
   \<and> content_length failing_env empty_post = Inr 0 \<and> (0::int) \<le> 0
   \<and> mcp_do_POST failing_env empty_post empty_state
       = (Inr (JsonReply 200 (mcp_default_response ''Empty request'')),
          \<lparr>event_queue = [mcp_default_response ''Empty request''], gateway_calls = []\<rparr>)\<close>
proof -
  have d: "mcp_dispatch unreachable_env (JObj [(''action'', JStr ''ping'')])
       = Inr (mcp_default_response ''Action 'ping' acknowledged'', [])"
    by (simp add: mcp_dispatch_def quoted_def)
  have l: "json_dumps unreachable_env (Some 2) (JObj [(''action'', JStr ''ping'')]) = Inr []"
    by (simp add: example_requests example_dumps_def)
  have sent: "fst (send_json unreachable_env (client ping_post)
            (mcp_default_response ''Action 'ping' acknowledged'')) = None"
    by (simp add: example_requests example_send_json)
  have broken: "fst (send_json unreachable_env (client hung_up_ping_post)
            (mcp_default_response ''Action 'ping' acknowledged''))
       = Some (BrokenPipeError ''[Errno 32] Broken pipe'')"
    by (simp add: example_requests send_json_def wfile_write_def example_dumps_def)
  have sent_empty: "fst (send_json failing_env (client empty_post)
            (mcp_default_response ''Empty request'')) = None"
    by (simp add: example_requests example_send_json)
  note at_ping = post_publishes_its_result [where e = unreachable_env and req = ping_post
      and s = empty_state and n = 18 and body = \<open>''{"action": "ping"}''\<close>
      and request_data = "JObj [(''action'', JStr ''ping'')]" and logged = "[]"
      and r = "mcp_default_response ''Action 'ping' acknowledged''" and calls = "[]"]
  note at_hung_up = post_publishes_its_result [where e = unreachable_env
      and req = hung_up_ping_post
      and s = empty_state and n = 18 and body = \<open>''{"action": "ping"}''\<close>
      and request_data = "JObj [(''action'', JStr ''ping'')]" and logged = "[]"
      and r = "mcp_default_response ''Action 'ping' acknowledged''" and calls = "[]"
      and x = "BrokenPipeError ''[Errno 32] Broken pipe''" and s' = empty_state]
  note at_empty = post_publishes_its_result [where e = failing_env and req = empty_post
      and s = empty_state and n = 0]
  from at_ping d l sent have c1:
    "mcp_do_POST unreachable_env ping_post empty_state
       = (Inr (JsonReply 200 (mcp_default_response ''Action 'ping' acknowledged'')),
          \<lparr>event_queue = [mcp_default_response ''Action 'ping' acknowledged''],
           gateway_calls = []\<rparr>)"
    by (simp add: example_requests empty_state_def)
  from at_hung_up d l broken have c2:
    "mcp_do_POST unreachable_env hung_up_ping_post empty_state
       = (Inl (BrokenPipeError ''[Errno 32] Broken pipe''), empty_state)"
    by (simp add: example_requests empty_state_def)
  with at_hung_up have c3:
    "event_queue (snd (mcp_do_POST unreachable_env hung_up_ping_post empty_state)) = []"
    by (simp add: empty_state_def)
  from at_empty sent_empty have c4:
    "mcp_do_POST failing_env empty_post empty_state
       = (Inr (JsonReply 200 (mcp_default_response ''Empty request'')),
          \<lparr>event_queue = [mcp_default_response ''Empty request''], gateway_calls = []\<rparr>)"
    by (simp add: example_requests empty_state_def)
  from d l sent broken c1 c2 c3 c4 show ?thesis
    by (simp add: example_requests)
qed

section \<open>A query whose gateway call fails\<close>

text \<open>
  Claim C7, as the claim states it, fails on a transport error: when the backend is
  unreachable \<^verbatim>\<open>requests.post\<close> raises, the \<^verbatim>\<open>except Exception\<close> clause of
  \<^verbatim>\<open>handle_query\<close> answers, and its result has \<open>data: null\<close>: no apology, no
  \<open>sources\<close>.
\<close>

theorem unreachable_backend_gives_null_data:
  "fst (mcp_handle_query unreachable_env query_request)
     = JObj [(''status'', JStr ''error''),
             (''message'', JStr ''Error processing query: Connection refused''),
             (''data'', JNull)]"
  by (simp add: mcp_handle_query_def query_request_def unreachable_env_def getenv_def
        query_exception_def Let_def)

lemma mcp_dispatch_query:
  assumes "map_of kvs ''action'' = Some (JStr ''query'')"
  shows "mcp_dispatch e (JObj kvs) = Inr (mcp_handle_query e (JObj kvs))"
proof -
  from assms have "''action'' \<in> set (map fst kvs)"
    by (metis map_of_eq_None_iff option.distinct(1) set_map)
  with assms show ?thesis by (simp add: mcp_dispatch_def)
qed

text \<open>
  Claim C7, amended. For every query request with a non-empty string \<open>data.query\<close>:
  when the gateway answers the call of \<^verbatim>\<open>handle_query\<close> with a status code other than
  200, or when no call is made because the LLM binding is not \<open>ollama\<close>, the result
  is the degraded one, with \<open>status: error\<close>, \<open>data.response\<close> the apology that quotes
  the query text, and \<open>data.sources\<close> the empty list; when the call raises (a transport
  error), the result is \<open>status: error\<close>, the message \<open>Error processing query:\<close>
  followed by the text of the exception, and \<open>data: null\<close>. In every case \<^verbatim>\<open>do_POST\<close>,
  having read, parsed and logged the request, replies with status 200 and this result
  as its body to a client that takes the reply.
\<close>

theorem query_with_failing_gateway:
  assumes "map_of kvs ''data'' = Some (JObj d)"
    and "map_of d ''query'' = Some (JStr q)"
    and "q \<noteq> []"
  shows "(snd (mcp_handle_query e (JObj kvs)) = []
          \<or> (snd (mcp_handle_query e (JObj kvs)) = [(endpoint, payload, t)]
              \<and> requests_post e endpoint payload t = Inr response
              \<and> status_code response \<noteq> 200)
          \<longrightarrow> fst (mcp_handle_query e (JObj kvs))
              = JObj [(''status'', JStr ''error''),
                      (''message'', JStr ''Failed to process query''),
                      (''data'', JObj [
                         (''response'', JStr (''I'm unable to answer your question about '' @
                                              quoted q @
                                              '' at this time. Please try again later.'')),
                         (''sources'', JList [])])])
       \<and> (snd (mcp_handle_query e (JObj kvs)) = [(endpoint, payload, t)]
            \<and> requests_post e endpoint payload t = Inl x
          \<longrightarrow> fst (mcp_handle_query e (JObj kvs))
              = JObj [(''status'', JStr ''error''),
                      (''message'', JStr (''Error processing query: '' @ exn_str x)),
                      (''data'', JNull)])
       \<and> (content_length e req = Inr n \<and> 0 < n \<and> post_data e req = Inr body
            \<and> json_loads e body = Inr (JObj kvs)
            \<and> json_dumps e (Some 2) (JObj kvs) = Inr logged
            \<and> map_of kvs ''action'' = Some (JStr ''query'')
            \<and> fst (send_json e (client req) (fst (mcp_handle_query e (JObj kvs)))) = None
          \<longrightarrow> (\<exists>s'. mcp_do_POST e req s
                 = (Inr (JsonReply 200 (fst (mcp_handle_query e (JObj kvs)))), s')))"
proof -
  have a: "snd (mcp_handle_query e (JObj kvs)) = []
      \<Longrightarrow> fst (mcp_handle_query e (JObj kvs)) = query_fallback e (JStr q)"
    using assms
    by (auto simp: mcp_handle_query_def Let_def split: sum.splits if_splits)
  have b: "snd (mcp_handle_query e (JObj kvs)) = [(endpoint, payload, t)]
      \<Longrightarrow> requests_post e endpoint payload t = Inr response
      \<Longrightarrow> status_code response \<noteq> 200
      \<Longrightarrow> fst (mcp_handle_query e (JObj kvs)) = query_fallback e (JStr q)"
    using assms
    by (auto simp: mcp_handle_query_def Let_def split: sum.splits if_splits)
  have c: "snd (mcp_handle_query e (JObj kvs)) = [(endpoint, payload, t)]
      \<Longrightarrow> requests_post e endpoint payload t = Inl x
      \<Longrightarrow> fst (mcp_handle_query e (JObj kvs)) = query_exception x"
    using assms
    by (auto simp: mcp_handle_query_def Let_def split: sum.splits if_splits)
  have d: "content_length e req = Inr n \<Longrightarrow> 0 < n \<Longrightarrow> post_data e req = Inr body
      \<Longrightarrow> json_loads e body = Inr (JObj kvs)
      \<Longrightarrow> json_dumps e (Some 2) (JObj kvs) = Inr logged
      \<Longrightarrow> map_of kvs ''action'' = Some (JStr ''query'')
      \<Longrightarrow> fst (send_json e (client req) (fst (mcp_handle_query e (JObj kvs)))) = None
      \<Longrightarrow> \<exists>s'. mcp_do_POST e req s
                 = (Inr (JsonReply 200 (fst (mcp_handle_query e (JObj kvs)))), s')"
    by (cases "mcp_handle_query e (JObj kvs)")
       (simp add: mcp_do_POST_def mcp_try_def mcp_dispatch_query send_and_publish_def Let_def)
  from a b c d show ?thesis
    by (auto simp: query_fallback_def query_exception_def)
qed

theorem query_with_failing_gateway_witness:
  "map_of [(''action'', JStr ''query''), (''data'', JObj [(''query'', JStr ''What is VAEBZ?'')])]
      ''data'' = Some (JObj [(''query'', JStr ''What is VAEBZ?'')])
   \<and> map_of [(''query'', JStr ''What is VAEBZ?'')] ''query'' = Some (JStr ''What is VAEBZ?'')
   \<and> ''What is VAEBZ?'' \<noteq> []
   \<and> fst (mcp_handle_query failing_env query_request)
       = JObj [(''status'', JStr ''error''),
               (''message'', JStr ''Failed to process query''),
               (''data'', JObj [
                  (''response'', JStr (''I'm unable to answer your question about '' @
                                       quoted ''What is VAEBZ?'' @
                                       '' at this time. Please try again later.'')),
                  (''sources'', JList [])])]
   \<and> fst (mcp_handle_query unreachable_env query_request)
       = JObj [(''status'', JStr ''error''),
               (''message'', JStr (''Error processing query: '' @
                                   exn_str (OtherException ''Connection refused''))),
               (''data'', JNull)]
   \<and> (\<exists>s'. mcp_do_POST failing_env query_post empty_state
          = (Inr (JsonReply 200 (fst (mcp_handle_query failing_env query_request))), s'))"
proof -
  have h1: "map_of [(''action'', JStr ''query''),
                    (''data'', JObj [(''query'', JStr ''What is VAEBZ?'')])] ''data''
              = Some (JObj [(''query'', JStr ''What is VAEBZ?'')])"
    by simp
  have h2: "map_of [(''query'', JStr ''What is VAEBZ?'')] ''query''
              = Some (JStr ''What is VAEBZ?'')"
    by simp
  have h3: "''What is VAEBZ?'' \<noteq> []" by simp
  have f: "snd (mcp_handle_query failing_env query_request)
      = [(''http://host.docker.internal:11434/api/generate'',
          JObj [(''model'', JStr ''llama3:instruct''),
                (''prompt'', JStr (query_prompt failing_env (JStr ''What is VAEBZ?''))),
                (''stream'', JBool False)], 60)]"
    by (simp add: mcp_handle_query_def query_request_def failing_env_def getenv_def Let_def)
  have u: "snd (mcp_handle_query unreachable_env query_request)
      = [(''http://host.docker.internal:11434/api/generate'',
          JObj [(''model'', JStr ''llama3:instruct''),
                (''prompt'', JStr (query_prompt unreachable_env (JStr ''What is VAEBZ?''))),
                (''stream'', JBool False)], 60)]"
    by (simp add: mcp_handle_query_def query_request_def unreachable_env_def getenv_def Let_def)
  have rf: "requests_post failing_env ''http://host.docker.internal:11434/api/generate''
      (JObj [(''model'', JStr ''llama3:instruct''),
             (''prompt'', JStr (query_prompt failing_env (JStr ''What is VAEBZ?''))),
             (''stream'', JBool False)]) 60
      = Inr \<lparr>status_code = 500, response_text = ''Internal Server Error'',
             json_body = Inl (OtherException ''Expecting value'')\<rparr>"
    by (simp add: failing_env_def)
  have ru: "requests_post unreachable_env ''http://host.docker.internal:11434/api/generate''
      (JObj [(''model'', JStr ''llama3:instruct''),
             (''prompt'', JStr (query_prompt unreachable_env (JStr ''What is VAEBZ?''))),
             (''stream'', JBool False)]) 60
      = Inl (OtherException ''Connection refused'')"
    by (simp add: unreachable_env_def)
  have p: \<open>content_length failing_env query_post = Inr 56
      \<and> post_data failing_env query_post
          = Inr ''{"action": "query", "data": {"query": "What is VAEBZ?"}}''
      \<and> json_loads failing_env ''{"action": "query", "data": {"query": "What is VAEBZ?"}}''
          = Inr (JObj [(''action'', JStr ''query''),
                       (''data'', JObj [(''query'', JStr ''What is VAEBZ?'')])])
      \<and> json_dumps failing_env (Some 2)
            (JObj [(''action'', JStr ''query''),
                   (''data'', JObj [(''query'', JStr ''What is VAEBZ?'')])]) = Inr []
      \<and> fst (send_json failing_env (client query_post)
            (fst (mcp_handle_query failing_env
               (JObj [(''action'', JStr ''query''),
                      (''data'', JObj [(''query'', JStr ''What is VAEBZ?'')])])))) = None\<close>
    by (simp add: example_requests example_send_json example_dumps_def query_request_def)
  note at_failing = query_with_failing_gateway [OF h1 h2 h3, where e = failing_env
        and endpoint = "''http://host.docker.internal:11434/api/generate''"
        and payload = "JObj [(''model'', JStr ''llama3:instruct''),
               (''prompt'', JStr (query_prompt failing_env (JStr ''What is VAEBZ?''))),
               (''stream'', JBool False)]" and t = 60
        and response = "\<lparr>status_code = 500, response_text = ''Internal Server Error'',
          json_body = Inl (OtherException ''Expecting value'')\<rparr>"
        and x = "OtherException ''Connection refused''" and req = query_post
        and s = empty_state and n = 56
        and body = \<open>''{"action": "query", "data": {"query": "What is VAEBZ?"}}''\<close>
        and logged = "[]"]
  note at_unreachable = query_with_failing_gateway [OF h1 h2 h3, where e = unreachable_env
        and endpoint = "''http://host.docker.internal:11434/api/generate''"
        and payload = "JObj [(''model'', JStr ''llama3:instruct''),
               (''prompt'', JStr (query_prompt unreachable_env (JStr ''What is VAEBZ?''))),
               (''stream'', JBool False)]" and t = 60
        and response = "\<lparr>status_code = 500, response_text = ''Internal Server Error'',
          json_body = Inl (OtherException ''Expecting value'')\<rparr>"
        and x = "OtherException ''Connection refused''" and req = query_post
        and s = empty_state and n = 56
        and body = \<open>''{"action": "query", "data": {"query": "What is VAEBZ?"}}''\<close>
        and logged = "[]"]
  from at_failing f rf have c1:
    "fst (mcp_handle_query failing_env query_request)
       = JObj [(''status'', JStr ''error''),
               (''message'', JStr ''Failed to process query''),
               (''data'', JObj [
                  (''response'', JStr (''I'm unable to answer your question about '' @
                                       quoted ''What is VAEBZ?'' @
                                       '' at this time. Please try again later.'')),
                  (''sources'', JList [])])]"
    by (simp add: query_request_def)
  from at_unreachable u ru have c2:
    "fst (mcp_handle_query unreachable_env query_request)
       = JObj [(''status'', JStr ''error''),
               (''message'', JStr (''Error processing query: '' @
                                   exn_str (OtherException ''Connection refused''))),
               (''data'', JNull)]"
    by (simp add: query_request_def)
  from at_failing p have c3:
    "\<exists>s'. mcp_do_POST failing_env query_post empty_state
          = (Inr (JsonReply 200 (fst (mcp_handle_query failing_env query_request))), s')"
    by (simp add: query_request_def)
  from h1 h2 h3 c1 c2 c3 show ?thesis by blast
qed

section \<open>The health check\<close>

text \<open>
  Claim C8, as the claim states it, fails on \<^verbatim>\<open>sse_server.py\<close>: its \<^verbatim>\<open>do_GET\<close> never
  looks at the path, and answers \<^verbatim>\<open>GET /health\<close> with an event stream that opens
  with \<open>connected\<close> and \<open>tools\<close>.
\<close>

theorem sse_server_health_is_a_stream:
  "sse_do_GET unreachable_env \<lparr>path = ''/health'', headers = Map.empty, peer = None\<rparr>
     = EventStream
         \<lparr>out = [Emit ''connected'' connected_event,
                 Emit ''tools'' (JObj [(''tools'', sse_TOOLS)])],
          budget = None, tick = 0, consumed = [], state = STREAMING\<rparr>"
  by (simp add: sse_do_GET_def sse_sse_open_def new_session_def send_sse_event_def)

text \<open>
  Claim C8, amended. In \<^verbatim>\<open>mcp_server.py\<close>, every GET of the path \<^verbatim>\<open>/health\<close> is
  answered 200 with a JSON body whose \<open>status\<close> is \<open>ok\<close>, whatever the headers; the
  reply is a function of the request alone, so no state of the server enters it. In
  \<^verbatim>\<open>simple_mcp_server.py\<close> the same holds for every GET of \<^verbatim>\<open>/health\<close> whose
  \<^verbatim>\<open>Accept\<close> header does not contain \<^verbatim>\<open>text/event-stream\<close>; a GET whose \<^verbatim>\<open>Accept\<close>
  header contains it opens an event stream, on any path. In \<^verbatim>\<open>sse_server.py\<close> every
  GET opens an event stream: there is no health check.
\<close>

theorem health_check:
  "(path req = ''/health'' \<longrightarrow>
      mcp_do_GET e req
        = Http (JsonReply 200
                  (JObj [(''status'', JStr ''ok''),
                         (''message'', JStr ''LightRAG MCP Server is healthy'')])))
   \<and> (path req = ''/health''
        \<and> \<not> contains ''text/event-stream'' (header_get (headers req) ''Accept'' []) \<longrightarrow>
      simple_do_GET e req
        = Http (JsonReply 200
                  (JObj [(''status'', JStr ''ok''),
                         (''message'', JStr ''LightRAG Simple MCP Server is healthy'')])))
   \<and> (contains ''text/event-stream'' (header_get (headers req) ''Accept'' []) \<longrightarrow>
      simple_do_GET e req = EventStream (simple_sse_open (peer req)))
   \<and> sse_do_GET e req = EventStream (sse_sse_open (peer req))"
  by (simp add: mcp_do_GET_def simple_do_GET_def sse_do_GET_def Let_def)

theorem health_check_witness:
  "path streaming_health_get = ''/health''
   \<and> contains ''text/event-stream'' (header_get (headers streaming_health_get) ''Accept'' [])
   \<and> mcp_do_GET unreachable_env streaming_health_get
       = Http (JsonReply 200
                 (JObj [(''status'', JStr ''ok''),
                        (''message'', JStr ''LightRAG MCP Server is healthy'')]))
   \<and> simple_do_GET unreachable_env streaming_health_get = EventStream (simple_sse_open None)
   \<and> path health_get = ''/health''
   \<and> \<not> contains ''text/event-stream'' (header_get (headers health_get) ''Accept'' [])
   \<and> simple_do_GET unreachable_env health_get
       = Http (JsonReply 200
                 (JObj [(''status'', JStr ''ok''),
                        (''message'', JStr ''LightRAG Simple MCP Server is healthy'')]))"
proof -
  have h1: "path streaming_health_get = ''/health''"
    by (simp add: streaming_health_get_def)
  have h2: "contains ''text/event-stream''
              (header_get (headers streaming_health_get) ''Accept'' [])"
    by (simp add: streaming_health_get_def header_get_def)
  have h3: "path health_get = ''/health''"
    by (simp add: health_get_def)
  have h4: "\<not> contains ''text/event-stream'' (header_get (headers health_get) ''Accept'' [])"
    by (simp add: health_get_def header_get_def)
  have p: "peer streaming_health_get = None"
    by (simp add: streaming_health_get_def)
  show ?thesis
    using h1 h2 h3 h4 p
      health_check [of streaming_health_get unreachable_env]
      health_check [of health_get unreachable_env]
    by simp
qed

section \<open>What a session writes\<close>

lemma event_types_append: "event_types (xs @ ys) = event_types xs @ event_types ys"
  by (induction xs rule: event_types.induct) simp_all

lemma elapsed_append: "elapsed (xs @ ys) = elapsed xs + elapsed ys"
  by (induction xs rule: elapsed.induct) simp_all

lemma heartbeats_append: "heartbeats (xs @ ys) = heartbeats xs + heartbeats ys"
  by (simp add: heartbeats_def event_types_append)

lemma heartbeats_Cons:
  "heartbeats [] = 0"
  "heartbeats (Sleep n # acts) = heartbeats acts"
  "heartbeats (Emit t d # acts) = (if t = ''heartbeat'' then 1 else 0) + heartbeats acts"
  by (simp_all add: heartbeats_def)

section \<open>One event, two sessions\<close>

lemma stream_except_consumed: "consumed (stream_except x s) = consumed s"
  by (cases x) simp_all

lemma send_sse_event_consumed:
  assumes "send_sse_event s t d = Inr s'"
  shows "consumed s' = consumed s"
  using assms by (auto simp: send_sse_event_def split: option.splits nat.splits)

lemma end_of_tick_consumed: "consumed (end_of_tick e s) = consumed s"
  by (auto simp: end_of_tick_def Let_def time_sleep_def stream_except_consumed
      dest!: send_sse_event_consumed split: sum.splits)

lemma stream_tick_empty_queue:
  "fst (stream_tick e ([], s)) = [] \<and> consumed (snd (stream_tick e ([], s))) = consumed s"
  by (simp add: stream_tick_def tryConsume_def end_of_tick_consumed)

lemma stream_tick_takes_head:
  assumes "state s = STREAMING"
  shows "fst (stream_tick e (event # q, s)) = q
       \<and> consumed (snd (stream_tick e (event # q, s))) = consumed s @ [event]"
  using assms
  by (auto simp: stream_tick_def tryConsume_def Let_def end_of_tick_consumed
        stream_except_consumed
      dest!: send_sse_event_consumed split: sum.splits)

lemma run_schedule_empty_queue:
  assumes "run_schedule e sched ([], a, b) = (q', a', b')"
  shows "q' = [] \<and> consumed a' = consumed a \<and> consumed b' = consumed b"
  using assms
proof (induction sched arbitrary: a b)
  case Nil
  then show ?case by (simp add: run_schedule_def)
next
  case (Cons w sched)
  show ?case
  proof (cases w)
    case A
    obtain q1 a1 where t: "stream_tick e ([], a) = (q1, a1)"
      by (cases "stream_tick e ([], a)")
    with stream_tick_empty_queue [of e a] have q1: "q1 = []" and c: "consumed a1 = consumed a"
      by simp_all
    from Cons.prems A t q1 have "run_schedule e sched ([], a1, b) = (q', a', b')"
      by (simp add: run_schedule_def)
    from Cons.IH [OF this] c show ?thesis by simp
  next
    case B
    obtain q1 b1 where t: "stream_tick e ([], b) = (q1, b1)"
      by (cases "stream_tick e ([], b)")
    with stream_tick_empty_queue [of e b] have q1: "q1 = []" and c: "consumed b1 = consumed b"
      by simp_all
    from Cons.prems B t q1 have "run_schedule e sched ([], a, b1) = (q', a', b')"
      by (simp add: run_schedule_def)
    from Cons.IH [OF this] c show ?thesis by simp
  qed
qed

text \<open>
  Claim C1. Two sessions of \<^verbatim>\<open>mcp_server.py\<close> (or of \<^verbatim>\<open>simple_mcp_server.py\<close>, whose
  loop is the same) are streaming, and the queue holds one published Event. Whatever
  the order in which the two sessions then run their ticks, as soon as one tick has
  run the queue is empty and exactly one session has got the Event from
  \<^verbatim>\<open>event_queue.get\<close>: the session that ran the first tick. The other session never
  gets it, however many ticks follow.
\<close>

theorem exactly_one_session_consumes:
  assumes "state a = STREAMING" and "state b = STREAMING"
    and "run_schedule e (w # sched) ([event], a, b) = (q', a', b')"
  shows "q' = []
       \<and> consumed a' = consumed a @ (if w = A then [event] else [])
       \<and> consumed b' = consumed b @ (if w = B then [event] else [])"
proof (cases w)
  case A
  obtain q1 a1 where t: "stream_tick e ([event], a) = (q1, a1)"
    by (cases "stream_tick e ([event], a)")
  with stream_tick_takes_head [OF assms(1), of e "event" "[]"]
  have q1: "q1 = []" and c: "consumed a1 = consumed a @ [event]"
    by simp_all
  from assms(3) A t q1 have "run_schedule e sched ([], a1, b) = (q', a', b')"
    by (simp add: run_schedule_def)
  from run_schedule_empty_queue [OF this] c A show ?thesis by simp
next
  case B
  obtain q1 b1 where t: "stream_tick e ([event], b) = (q1, b1)"
    by (cases "stream_tick e ([event], b)")
  with stream_tick_takes_head [OF assms(2), of e "event" "[]"]
  have q1: "q1 = []" and c: "consumed b1 = consumed b @ [event]"
    by simp_all
  from assms(3) B t q1 have "run_schedule e sched ([], a, b1) = (q', a', b')"
    by (simp add: run_schedule_def)
  from run_schedule_empty_queue [OF this] c B show ?thesis by simp
qed

lemma mcp_sse_open_staying:
  "mcp_sse_open e None
     = \<lparr>out = [Emit ''connected'' connected_event,
               Emit ''tools'' (JObj [(''type'', JStr ''tools''), (''tools'', mcp_TOOLS)]),
               Emit ''capabilities'' (mcp_handle_capabilities e)],
        budget = None, tick = 0, consumed = [], state = STREAMING\<rparr>"
  by (simp add: mcp_sse_open_def new_session_def send_sse_event_def)

lemma simple_sse_open_staying:
  "simple_sse_open None
     = \<lparr>out = [Emit ''connected'' connected_event,
               Emit ''tools'' (JObj [(''type'', JStr ''tools''), (''tools'', simple_TOOLS)]),
               Emit ''capabilities'' simple_capabilities],
        budget = None, tick = 0, consumed = [], state = STREAMING\<rparr>"
  by (simp add: simple_sse_open_def new_session_def send_sse_event_def)

theorem exactly_one_session_consumes_witness:
  "state (mcp_sse_open unreachable_env None) = STREAMING
   \<and> state (mcp_sse_open unreachable_env (Some 7)) = STREAMING
   \<and> fst (run_schedule unreachable_env [B, A, B, B]
            ([invalid_json_data], mcp_sse_open unreachable_env None,
             mcp_sse_open unreachable_env (Some 7))) = []
   \<and> consumed (fst (snd (run_schedule unreachable_env [B, A, B, B]
            ([invalid_json_data], mcp_sse_open unreachable_env None,
             mcp_sse_open unreachable_env (Some 7))))) = []
   \<and> consumed (snd (snd (run_schedule unreachable_env [B, A, B, B]
            ([invalid_json_data], mcp_sse_open unreachable_env None,
             mcp_sse_open unreachable_env (Some 7))))) = [invalid_json_data]"
proof -
  have h1: "state (mcp_sse_open unreachable_env None) = STREAMING"
    by (simp add: mcp_sse_open_staying)
  have h2: "state (mcp_sse_open unreachable_env (Some 7)) = STREAMING"
    by (simp add: mcp_sse_open_def new_session_def send_sse_event_def eval_nat_numeral)
  have c1: "consumed (mcp_sse_open unreachable_env None) = []"
    by (simp add: mcp_sse_open_staying)
  have c2: "consumed (mcp_sse_open unreachable_env (Some 7)) = []"
    by (simp add: mcp_sse_open_def new_session_def send_sse_event_def eval_nat_numeral)
  have h3: "run_schedule unreachable_env (B # [A, B, B])
            ([invalid_json_data], mcp_sse_open unreachable_env None,
             mcp_sse_open unreachable_env (Some 7))
        = (fst (run_schedule unreachable_env [B, A, B, B]
            ([invalid_json_data], mcp_sse_open unreachable_env None,
             mcp_sse_open unreachable_env (Some 7))),
           fst (snd (run_schedule unreachable_env [B, A, B, B]
            ([invalid_json_data], mcp_sse_open unreachable_env None,
             mcp_sse_open unreachable_env (Some 7)))),
           snd (snd (run_schedule unreachable_env [B, A, B, B]
            ([invalid_json_data], mcp_sse_open unreachable_env None,
             mcp_sse_open unreachable_env (Some 7)))))"
    by simp
  show ?thesis
    using h1 h2 c1 c2 exactly_one_session_consumes [OF h1 h2 h3]
    by simp
qed

section \<open>The heartbeat cadence\<close>

lemma idle_tick:
  assumes "state s = STREAMING" and "budget s = None"
  shows "fst (stream_tick e ([], s)) = []"
    and "state (snd (stream_tick e ([], s))) = STREAMING"
    and "budget (snd (stream_tick e ([], s))) = None"
    and "tick (snd (stream_tick e ([], s))) = (if Suc (tick s) = 30 then 0 else Suc (tick s))"
    and "heartbeats (out (snd (stream_tick e ([], s))))
           = heartbeats (out s) + (if Suc (tick s) = 30 then 1 else 0)"
    and "elapsed (out (snd (stream_tick e ([], s)))) = elapsed (out s) + 1"
  using assms
  by (simp_all add: stream_tick_def tryConsume_def end_of_tick_def Let_def time_sleep_def
        send_sse_event_def heartbeats_append elapsed_append heartbeats_Cons)

lemma idle_ticks:
  assumes "state s = STREAMING" and "budget s = None" and "tick s = 0"
  shows "fst ((stream_tick e ^^ n) ([], s)) = []
       \<and> state (snd ((stream_tick e ^^ n) ([], s))) = STREAMING
       \<and> budget (snd ((stream_tick e ^^ n) ([], s))) = None
       \<and> tick (snd ((stream_tick e ^^ n) ([], s))) = n mod 30
       \<and> heartbeats (out (snd ((stream_tick e ^^ n) ([], s)))) = heartbeats (out s) + n div 30
       \<and> elapsed (out (snd ((stream_tick e ^^ n) ([], s)))) = elapsed (out s) + n"
proof (induction n)
  case 0
  with assms show ?case by simp
next
  case (Suc n)
  obtain q1 s1 where p: "(stream_tick e ^^ n) ([], s) = (q1, s1)"
    by (cases "(stream_tick e ^^ n) ([], s)")
  with Suc have q1: "q1 = []" and st: "state s1 = STREAMING" and bu: "budget s1 = None"
    and ti: "tick s1 = n mod 30"
    and hb: "heartbeats (out s1) = heartbeats (out s) + n div 30"
    and el: "elapsed (out s1) = elapsed (out s) + n"
    by simp_all
  have step: "(stream_tick e ^^ Suc n) ([], s) = stream_tick e ([], s1)"
    using p q1 by simp
  show ?case
    unfolding step
    using idle_tick [OF st bu, where e = e] ti hb el
    by (simp add: mod_Suc div_Suc)
qed

lemma sse_idle_tick:
  assumes "state s = STREAMING" and "budget s = None"
  shows "state (sse_stream_tick e s) = STREAMING"
    and "budget (sse_stream_tick e s) = None"
    and "heartbeats (out (sse_stream_tick e s)) = heartbeats (out s) + 1"
    and "elapsed (out (sse_stream_tick e s)) = elapsed (out s) + 5"
  using assms
  by (simp_all add: sse_stream_tick_def time_sleep_def send_sse_event_def heartbeats_append
        elapsed_append heartbeats_Cons)

lemma sse_idle_ticks:
  assumes "state s = STREAMING" and "budget s = None"
  shows "state ((sse_stream_tick e ^^ n) s) = STREAMING
       \<and> budget ((sse_stream_tick e ^^ n) s) = None
       \<and> heartbeats (out ((sse_stream_tick e ^^ n) s)) = heartbeats (out s) + n
       \<and> elapsed (out ((sse_stream_tick e ^^ n) s)) = elapsed (out s) + 5 * n"
proof (induction n)
  case 0
  with assms show ?case by simp
next
  case (Suc n)
  then show ?case
    using sse_idle_tick [where s = "(sse_stream_tick e ^^ n) s" and e = e] by simp
qed

lemma generate_idle_tick:
  assumes "state s = STREAMING" and "budget s = None"
  shows "state (generate_tick e s) = STREAMING"
    and "budget (generate_tick e s) = None"
    and "heartbeats (out (generate_tick e s)) = heartbeats (out s) + 1"
    and "elapsed (out (generate_tick e s)) = elapsed (out s) + 10"
  using assms
  by (simp_all add: generate_tick_def time_sleep_def send_sse_event_def heartbeats_append
        elapsed_append heartbeats_Cons Let_def)

lemma generate_idle_ticks:
  assumes "state s = STREAMING" and "budget s = None"
  shows "state ((generate_tick e ^^ n) s) = STREAMING
       \<and> budget ((generate_tick e ^^ n) s) = None
       \<and> heartbeats (out ((generate_tick e ^^ n) s)) = heartbeats (out s) + n
       \<and> elapsed (out ((generate_tick e ^^ n) s)) = elapsed (out s) + 10 * n"
proof (induction n)
  case 0
  with assms show ?case by simp
next
  case (Suc n)
  then show ?case
    using generate_idle_tick [where s = "(generate_tick e ^^ n) s" and e = e] by simp
qed

lemma sse_sse_open_staying:
  "sse_sse_open None
     = \<lparr>out = [Emit ''connected'' connected_event,
               Emit ''tools'' (JObj [(''tools'', sse_TOOLS)])],
        budget = None, tick = 0, consumed = [], state = STREAMING\<rparr>"
  by (simp add: sse_sse_open_def new_session_def send_sse_event_def)

lemma generate_open_staying:
  "generate_open None
     = \<lparr>out = [Emit ''connected'' connected_event,
               Emit ''tools'' (JObj [(''tools'', flask_TOOLS)])],
        budget = None, tick = 0, consumed = [], state = STREAMING\<rparr>"
  by (simp add: generate_open_def new_session_def send_sse_event_def)

lemma message_then_sleep:
  assumes "state s = STREAMING" and "budget s = None"
  shows "take 2 (drop (length (out s)) (out (snd (stream_tick e (event # q, s)))))
           = [Emit ''message'' event, Sleep 1]"
  using assms
  by (simp add: stream_tick_def tryConsume_def end_of_tick_def Let_def time_sleep_def
        send_sse_event_def)

text \<open>
  Claim C6, as the claim states it, fails on \<^verbatim>\<open>sse_server.py\<close>: its loop writes a
  heartbeat and sleeps 5 seconds, so a session with a peer that stays has written six
  heartbeats when it has slept 30 seconds.
\<close>

theorem sse_server_heartbeats_every_five_seconds:
  "heartbeats (out ((sse_stream_tick unreachable_env ^^ 6) (sse_sse_open None))) = 6
   \<and> elapsed (out ((sse_stream_tick unreachable_env ^^ 6) (sse_sse_open None))) = 30"
proof -
  have "state (sse_sse_open None) = STREAMING" and "budget (sse_sse_open None) = None"
    and "heartbeats (out (sse_sse_open None)) = 0" and "elapsed (out (sse_sse_open None)) = 0"
    by (simp_all add: sse_sse_open_staying heartbeats_def)
  with sse_idle_ticks [where s = "sse_sse_open None" and e = unreachable_env and n = 6] show ?thesis by simp
qed

text \<open>
  Claim C6, amended. With no published event and a peer that stays connected, a
  session of \<^verbatim>\<open>mcp_server.py\<close> or of \<^verbatim>\<open>simple_mcp_server.py\<close> that has run \<open>n\<close> ticks
  has slept \<open>n\<close> seconds and written \<open>n div 30\<close> heartbeats, for every \<open>n\<close>, and is still
  streaming: one heartbeat per 30 ticks of 1 second, without end. A tick of these
  sessions that finds an event writes it as \<open>message\<close> and then sleeps its second all
  the same. A session of \<^verbatim>\<open>sse_server.py\<close> that has run \<open>n\<close> iterations of its loop has
  written \<open>n\<close> heartbeats and slept \<open>5 * n\<close> seconds (one heartbeat per 5 seconds), and
  the generator of \<^verbatim>\<open>simple_sse.py\<close> has written \<open>n\<close> heartbeats and slept \<open>10 * n\<close>
  seconds (one heartbeat per 10 seconds).
\<close>

theorem heartbeat_cadence:
  "heartbeats (out (snd ((stream_tick e ^^ n) ([], mcp_sse_open e None)))) = n div 30
   \<and> elapsed (out (snd ((stream_tick e ^^ n) ([], mcp_sse_open e None)))) = n
   \<and> state (snd ((stream_tick e ^^ n) ([], mcp_sse_open e None))) = STREAMING
   \<and> heartbeats (out (snd ((stream_tick e ^^ n) ([], simple_sse_open None)))) = n div 30
   \<and> elapsed (out (snd ((stream_tick e ^^ n) ([], simple_sse_open None)))) = n
   \<and> state (snd ((stream_tick e ^^ n) ([], simple_sse_open None))) = STREAMING
   \<and> (state s = STREAMING \<and> budget s = None \<longrightarrow>
        take 2 (drop (length (out s)) (out (snd (stream_tick e (event # q, s)))))
          = [Emit ''message'' event, Sleep 1])
   \<and> heartbeats (out ((sse_stream_tick e ^^ n) (sse_sse_open None))) = n
   \<and> elapsed (out ((sse_stream_tick e ^^ n) (sse_sse_open None))) = 5 * n
   \<and> state ((sse_stream_tick e ^^ n) (sse_sse_open None)) = STREAMING
   \<and> heartbeats (out ((generate_tick e ^^ n) (generate_open None))) = n
   \<and> elapsed (out ((generate_tick e ^^ n) (generate_open None))) = 10 * n
   \<and> state ((generate_tick e ^^ n) (generate_open None)) = STREAMING"
proof -
  have m: "state (mcp_sse_open e None) = STREAMING" "budget (mcp_sse_open e None) = None"
    "tick (mcp_sse_open e None) = 0" "heartbeats (out (mcp_sse_open e None)) = 0"
    "elapsed (out (mcp_sse_open e None)) = 0"
    by (simp_all add: mcp_sse_open_staying heartbeats_def)
  have s: "state (simple_sse_open None) = STREAMING" "budget (simple_sse_open None) = None"
    "tick (simple_sse_open None) = 0" "heartbeats (out (simple_sse_open None)) = 0"
    "elapsed (out (simple_sse_open None)) = 0"
    by (simp_all add: simple_sse_open_staying heartbeats_def)
  have v: "state (sse_sse_open None) = STREAMING" "budget (sse_sse_open None) = None"
    "heartbeats (out (sse_sse_open None)) = 0" "elapsed (out (sse_sse_open None)) = 0"
    by (simp_all add: sse_sse_open_staying heartbeats_def)
  have g: "state (generate_open None) = STREAMING" "budget (generate_open None) = None"
    "heartbeats (out (generate_open None)) = 0" "elapsed (out (generate_open None)) = 0"
    by (simp_all add: generate_open_staying heartbeats_def)
  from idle_ticks [OF m(1-3), where e = e and n = n] m(4,5)
  have c1: "heartbeats (out (snd ((stream_tick e ^^ n) ([], mcp_sse_open e None)))) = n div 30
   \<and> elapsed (out (snd ((stream_tick e ^^ n) ([], mcp_sse_open e None)))) = n
   \<and> state (snd ((stream_tick e ^^ n) ([], mcp_sse_open e None))) = STREAMING"
    by simp
  from idle_ticks [OF s(1-3), where e = e and n = n] s(4,5)
  have c2: "heartbeats (out (snd ((stream_tick e ^^ n) ([], simple_sse_open None)))) = n div 30
   \<and> elapsed (out (snd ((stream_tick e ^^ n) ([], simple_sse_open None)))) = n
   \<and> state (snd ((stream_tick e ^^ n) ([], simple_sse_open None))) = STREAMING"
    by simp
  from sse_idle_ticks [OF v(1,2), where e = e and n = n] v(3,4)
  have c3: "heartbeats (out ((sse_stream_tick e ^^ n) (sse_sse_open None))) = n
   \<and> elapsed (out ((sse_stream_tick e ^^ n) (sse_sse_open None))) = 5 * n
   \<and> state ((sse_stream_tick e ^^ n) (sse_sse_open None)) = STREAMING"
    by simp
  from generate_idle_ticks [OF g(1,2), where e = e and n = n] g(3,4)
  have c4: "heartbeats (out ((generate_tick e ^^ n) (generate_open None))) = n
   \<and> elapsed (out ((generate_tick e ^^ n) (generate_open None))) = 10 * n
   \<and> state ((generate_tick e ^^ n) (generate_open None)) = STREAMING"
    by simp
  from c1 c2 c3 c4 message_then_sleep [where s = s and e = e and event = "event" and q = q] show ?thesis by blast
qed

theorem heartbeat_cadence_witness:
  "state (mcp_sse_open unreachable_env None) = STREAMING
   \<and> budget (mcp_sse_open unreachable_env None) = None
   \<and> heartbeats (out (snd ((stream_tick unreachable_env ^^ 60)
                             ([], mcp_sse_open unreachable_env None)))) = 2
   \<and> elapsed (out (snd ((stream_tick unreachable_env ^^ 60)
                          ([], mcp_sse_open unreachable_env None)))) = 60
   \<and> heartbeats (out (snd ((stream_tick unreachable_env ^^ 29)
                             ([], mcp_sse_open unreachable_env None)))) = 0
   \<and> take 2 (drop (length (out (mcp_sse_open unreachable_env None)))
        (out (snd (stream_tick unreachable_env
                     ([invalid_json_data], mcp_sse_open unreachable_env None)))))
       = [Emit ''message'' invalid_json_data, Sleep 1]"
proof -
  have h1: "state (mcp_sse_open unreachable_env None) = STREAMING"
    by (simp add: mcp_sse_open_staying)
  have h2: "budget (mcp_sse_open unreachable_env None) = None"
    by (simp add: mcp_sse_open_staying)
  show ?thesis
    using h1 h2
      heartbeat_cadence [where e = unreachable_env and n = 60
        and s = "mcp_sse_open unreachable_env None" and event = invalid_json_data and q = "[]"]
      heartbeat_cadence [where e = unreachable_env and n = 29
        and s = "mcp_sse_open unreachable_env None" and event = invalid_json_data and q = "[]"]
    by simp
qed

section \<open>The events before the loop\<close>

lemma stream_except_out: "out (stream_except x s) = out s"
  by (cases x) simp_all

lemma send_sse_event_out:
  assumes "send_sse_event s t d = Inr s'"
  shows "out s' = out s @ [Emit t d]"
  using assms by (auto simp: send_sse_event_def split: option.splits nat.splits)

lemma end_of_tick_out: "\<exists>acts. out (end_of_tick e s) = out s @ acts"
  by (auto simp: end_of_tick_def Let_def time_sleep_def stream_except_out
      dest!: send_sse_event_out split: sum.splits)

lemma stream_tick_out: "\<exists>acts. out (snd (stream_tick e (q, s))) = out s @ acts"
proof (cases "state s = STREAMING")
  case False
  then show ?thesis by (simp add: stream_tick_def)
next
  case True
  show ?thesis
  proof (cases q)
    case Nil
    with True end_of_tick_out [where e = e and s = s] show ?thesis
      by (simp add: stream_tick_def tryConsume_def)
  next
    case (Cons event rest)
    let ?s0 = "s\<lparr>consumed := consumed s @ [event]\<rparr>"
    show ?thesis
    proof (cases "send_sse_event ?s0 ''message'' event")
      case (Inl x)
      with True Cons show ?thesis
        by (simp add: stream_tick_def tryConsume_def Let_def stream_except_out)
    next
      case (Inr s1)
      from send_sse_event_out [OF Inr] have o1: "out s1 = out s @ [Emit ''message'' event]"
        by simp
      from end_of_tick_out [where e = e and s = s1] obtain acts where "out (end_of_tick e s1) = out s1 @ acts"
        by blast
      with o1 True Cons Inr show ?thesis
        by (simp add: stream_tick_def tryConsume_def Let_def)
    qed
  qed
qed

lemma stream_ticks_out: "\<exists>acts. out (snd ((stream_tick e ^^ n) (q, s))) = out s @ acts"
proof (induction n)
  case 0
  then show ?case by simp
next
  case (Suc n)
  obtain q1 s1 where p: "(stream_tick e ^^ n) (q, s) = (q1, s1)"
    by (cases "(stream_tick e ^^ n) (q, s)")
  with Suc obtain acts where a: "out s1 = out s @ acts" by auto
  from stream_tick_out [where e = e and q = q1 and s = s1] obtain acts' where
    "out (snd (stream_tick e (q1, s1))) = out s1 @ acts'" by blast
  with a p show ?case by simp
qed

lemma stream_ticks_not_streaming:
  assumes "state s \<noteq> STREAMING"
  shows "(stream_tick e ^^ n) (q, s) = (q, s)"
  using assms by (induction n) (simp_all add: stream_tick_def)

lemma sse_stream_ticks_not_streaming:
  assumes "state s \<noteq> STREAMING"
  shows "(sse_stream_tick e ^^ n) s = s"
  using assms by (induction n) (simp_all add: sse_stream_tick_def)

lemma generate_ticks_not_streaming:
  assumes "state s \<noteq> STREAMING"
  shows "(generate_tick e ^^ n) s = s"
  using assms by (induction n) (simp_all add: generate_tick_def)

lemma sse_stream_tick_types:
  "\<exists>m. event_types (out (sse_stream_tick e s)) = event_types (out s) @ replicate m ''heartbeat''"
proof (cases "state s = STREAMING")
  case False
  then have "event_types (out (sse_stream_tick e s)) = event_types (out s) @ replicate 0 ''heartbeat''"
    by (simp add: sse_stream_tick_def)
  then show ?thesis by blast
next
  case True
  show ?thesis
  proof (cases "send_sse_event s ''heartbeat'' (heartbeat_event e s)")
    case (Inl x)
    with True have "event_types (out (sse_stream_tick e s))
        = event_types (out s) @ replicate 0 ''heartbeat''"
      by (simp add: sse_stream_tick_def stream_except_out)
    then show ?thesis by blast
  next
    case (Inr s1)
    from send_sse_event_out [OF Inr] True Inr
    have "event_types (out (sse_stream_tick e s))
        = event_types (out s) @ replicate 1 ''heartbeat''"
      by (simp add: sse_stream_tick_def time_sleep_def event_types_append)
    then show ?thesis by blast
  qed
qed

lemma sse_stream_ticks_types:
  "\<exists>m. event_types (out ((sse_stream_tick e ^^ n) s))
         = event_types (out s) @ replicate m ''heartbeat''"
proof (induction n)
  case 0
  have "event_types (out ((sse_stream_tick e ^^ 0) s))
      = event_types (out s) @ replicate 0 ''heartbeat''" by simp
  then show ?case by blast
next
  case (Suc n)
  then obtain m where m: "event_types (out ((sse_stream_tick e ^^ n) s))
      = event_types (out s) @ replicate m ''heartbeat''" by blast
  from sse_stream_tick_types [where e = e and s = "(sse_stream_tick e ^^ n) s"] obtain k where
    "event_types (out (sse_stream_tick e ((sse_stream_tick e ^^ n) s)))
      = event_types (out ((sse_stream_tick e ^^ n) s)) @ replicate k ''heartbeat''" by blast
  with m have "event_types (out ((sse_stream_tick e ^^ Suc n) s))
      = event_types (out s) @ replicate (m + k) ''heartbeat''"
    by (simp add: replicate_add)
  then show ?case by blast
qed

lemma generate_tick_types:
  "\<exists>m. event_types (out (generate_tick e s)) = event_types (out s) @ replicate m ''heartbeat''"
proof (cases "state s = STREAMING")
  case False
  then have "event_types (out (generate_tick e s)) = event_types (out s) @ replicate 0 ''heartbeat''"
    by (simp add: generate_tick_def)
  then show ?thesis by blast
next
  case True
  let ?s1 = "time_sleep 10 s"
  show ?thesis
  proof (cases "send_sse_event ?s1 ''heartbeat'' (heartbeat_event e ?s1)")
    case (Inl x)
    with True have "event_types (out (generate_tick e s))
        = event_types (out s) @ replicate 0 ''heartbeat''"
      by (simp add: generate_tick_def Let_def stream_except_out time_sleep_def
            event_types_append)
    then show ?thesis by blast
  next
    case (Inr s2)
    from send_sse_event_out [OF Inr] True Inr
    have "event_types (out (generate_tick e s))
        = event_types (out s) @ replicate 1 ''heartbeat''"
      by (simp add: generate_tick_def Let_def time_sleep_def event_types_append)
    then show ?thesis by blast
  qed
qed

lemma generate_ticks_types:
  "\<exists>m. event_types (out ((generate_tick e ^^ n) s))
         = event_types (out s) @ replicate m ''heartbeat''"
proof (induction n)
  case 0
  have "event_types (out ((generate_tick e ^^ 0) s))
      = event_types (out s) @ replicate 0 ''heartbeat''" by simp
  then show ?case by blast
next
  case (Suc n)
  then obtain m where m: "event_types (out ((generate_tick e ^^ n) s))
      = event_types (out s) @ replicate m ''heartbeat''" by blast
  from generate_tick_types [where e = e and s = "(generate_tick e ^^ n) s"] obtain k where
    "event_types (out (generate_tick e ((generate_tick e ^^ n) s)))
      = event_types (out ((generate_tick e ^^ n) s)) @ replicate k ''heartbeat''" by blast
  with m have "event_types (out ((generate_tick e ^^ Suc n) s))
      = event_types (out s) @ replicate (m + k) ''heartbeat''"
    by (simp add: replicate_add)
  then show ?case by blast
qed

lemma three_events_open:
  "(state (initial_events (new_session b) [(t1, d1), (t2, d2), (t3, d3)]) = STREAMING
      \<and> event_types (out (initial_events (new_session b) [(t1, d1), (t2, d2), (t3, d3)]))
          = [t1, t2, t3])
   \<or> (state (initial_events (new_session b) [(t1, d1), (t2, d2), (t3, d3)]) \<noteq> STREAMING
      \<and> event_types (out (initial_events (new_session b) [(t1, d1), (t2, d2), (t3, d3)]))
          \<in> {[], [t1], [t1, t2]})"
  by (auto simp: new_session_def send_sse_event_def split: option.splits nat.splits)

lemma two_events_open:
  "(state (initial_events (new_session b) [(t1, d1), (t2, d2)]) = STREAMING
      \<and> event_types (out (initial_events (new_session b) [(t1, d1), (t2, d2)])) = [t1, t2])
   \<or> (state (initial_events (new_session b) [(t1, d1), (t2, d2)]) \<noteq> STREAMING
      \<and> event_types (out (initial_events (new_session b) [(t1, d1), (t2, d2)]))
          \<in> {[], [t1]})"
  by (auto simp: new_session_def send_sse_event_def split: option.splits nat.splits)

lemma first_three_after_ticks:
  fixes s0 :: session
  assumes "(state s0 = STREAMING \<and> event_types (out s0) = [t1, t2, t3])
           \<or> (state s0 \<noteq> STREAMING \<and> event_types (out s0) \<in> {[], [t1], [t1, t2]})"
  shows "take 3 (event_types (out (snd ((stream_tick e ^^ n) (q, s0)))))
           = take (length (event_types (out (snd ((stream_tick e ^^ n) (q, s0))))))
               [t1, t2, t3]"
proof (cases "state s0 = STREAMING")
  case True
  with assms have o: "event_types (out s0) = [t1, t2, t3]" by blast
  from stream_ticks_out [where e = e and n = n and q = q and s = s0] obtain acts where
    "out (snd ((stream_tick e ^^ n) (q, s0))) = out s0 @ acts" by blast
  with o show ?thesis by (simp add: event_types_append)
next
  case False
  with assms have "event_types (out s0) \<in> {[], [t1], [t1, t2]}" by blast
  with stream_ticks_not_streaming [OF False, where e = e and n = n and q = q] show ?thesis by auto
qed

lemma first_three_after_heartbeats:
  fixes s0 :: session
  assumes "(state s0 = STREAMING \<and> event_types (out s0) = [t1, t2])
           \<or> (state s0 \<noteq> STREAMING \<and> event_types (out s0) \<in> {[], [t1]})"
    and "state s0 \<noteq> STREAMING \<longrightarrow> s' = s0"
    and "event_types (out s') = event_types (out s0) @ replicate m ''heartbeat''"
  shows "take 3 (event_types (out s'))
           = take (length (event_types (out s'))) [t1, t2, ''heartbeat'']"
proof (cases "state s0 = STREAMING")
  case True
  with assms(1) have "event_types (out s0) = [t1, t2]" by blast
  with assms(3) show ?thesis by (cases m) simp_all
next
  case False
  with assms(1,2) have "event_types (out s') \<in> {[], [t1]}" by blast
  then show ?thesis by auto
qed

text \<open>
  Claim C5, as the claim states it, fails on \<^verbatim>\<open>sse_server.py\<close>: its session writes
  \<open>connected\<close> and \<open>tools\<close> and then enters the loop, so its third event is a
  \<open>heartbeat\<close>; no \<open>capabilities\<close> event is ever written.
\<close>

theorem sse_server_third_event_is_heartbeat:
  "take 3 (event_types (out (sse_stream_tick unreachable_env (sse_sse_open None))))
     = [''connected'', ''tools'', ''heartbeat'']"
  by (simp add: sse_sse_open_staying sse_stream_tick_def send_sse_event_def time_sleep_def)

text \<open>
  Claim C5, amended. In \<^verbatim>\<open>mcp_server.py\<close> and \<^verbatim>\<open>simple_mcp_server.py\<close>, whatever the
  queue holds, however many ticks the session has run and whenever the peer
  disconnects, the first three events the session has written, as far as it has
  written any, are \<open>connected\<close>, \<open>tools\<close>, \<open>capabilities\<close> in this order; towards a peer
  that stays connected all three are written. In \<^verbatim>\<open>sse_server.py\<close> and in the
  generator of \<^verbatim>\<open>simple_sse.py\<close> the first events are \<open>connected\<close>, \<open>tools\<close> and then
  \<open>heartbeat\<close>.
\<close>

theorem first_events_of_a_session:
  "(let evs = event_types (out (snd ((stream_tick e ^^ n) (q, mcp_sse_open e b))))
    in take 3 evs = take (length evs) [''connected'', ''tools'', ''capabilities''])
   \<and> (let evs = event_types (out (snd ((stream_tick e ^^ n) (q, simple_sse_open b))))
    in take 3 evs = take (length evs) [''connected'', ''tools'', ''capabilities''])
   \<and> take 3 (event_types (out (snd ((stream_tick e ^^ n) (q, mcp_sse_open e None)))))
       = [''connected'', ''tools'', ''capabilities'']
   \<and> take 3 (event_types (out (snd ((stream_tick e ^^ n) (q, simple_sse_open None)))))
       = [''connected'', ''tools'', ''capabilities'']
   \<and> (let evs = event_types (out ((sse_stream_tick e ^^ n) (sse_sse_open b)))
    in take 3 evs = take (length evs) [''connected'', ''tools'', ''heartbeat''])
   \<and> (let evs = event_types (out ((generate_tick e ^^ n) (generate_open b)))
    in take 3 evs = take (length evs) [''connected'', ''tools'', ''heartbeat''])"
proof -
  have c1: "take 3 (event_types (out (snd ((stream_tick e ^^ n) (q, mcp_sse_open e b)))))
      = take (length (event_types (out (snd ((stream_tick e ^^ n) (q, mcp_sse_open e b))))))
          [''connected'', ''tools'', ''capabilities'']"
    unfolding mcp_sse_open_def by (rule first_three_after_ticks [OF three_events_open])
  have c2: "take 3 (event_types (out (snd ((stream_tick e ^^ n) (q, simple_sse_open b)))))
      = take (length (event_types (out (snd ((stream_tick e ^^ n) (q, simple_sse_open b))))))
          [''connected'', ''tools'', ''capabilities'']"
    unfolding simple_sse_open_def by (rule first_three_after_ticks [OF three_events_open])
  from stream_ticks_out [where e = e and n = n and q = q and s = "mcp_sse_open e None"] obtain acts where
    "out (snd ((stream_tick e ^^ n) (q, mcp_sse_open e None))) = out (mcp_sse_open e None) @ acts"
    by blast
  then have c3: "take 3 (event_types (out (snd ((stream_tick e ^^ n) (q, mcp_sse_open e None)))))
       = [''connected'', ''tools'', ''capabilities'']"
    by (simp add: mcp_sse_open_staying event_types_append)
  from stream_ticks_out [where e = e and n = n and q = q and s = "simple_sse_open None"] obtain acts' where
    "out (snd ((stream_tick e ^^ n) (q, simple_sse_open None))) = out (simple_sse_open None) @ acts'"
    by blast
  then have c4: "take 3 (event_types (out (snd ((stream_tick e ^^ n) (q, simple_sse_open None)))))
       = [''connected'', ''tools'', ''capabilities'']"
    by (simp add: simple_sse_open_staying event_types_append)
  from sse_stream_ticks_types [where e = e and n = n and s = "sse_sse_open b"] obtain m where
    m: "event_types (out ((sse_stream_tick e ^^ n) (sse_sse_open b)))
         = event_types (out (sse_sse_open b)) @ replicate m ''heartbeat''" by blast
  have c5: "take 3 (event_types (out ((sse_stream_tick e ^^ n) (sse_sse_open b))))
      = take (length (event_types (out ((sse_stream_tick e ^^ n) (sse_sse_open b)))))
          [''connected'', ''tools'', ''heartbeat'']"
  proof (rule first_three_after_heartbeats [OF _ _ m])
    show "(state (sse_sse_open b) = STREAMING
            \<and> event_types (out (sse_sse_open b)) = [''connected'', ''tools''])
          \<or> (state (sse_sse_open b) \<noteq> STREAMING
            \<and> event_types (out (sse_sse_open b)) \<in> {[], [''connected'']})"
      unfolding sse_sse_open_def by (rule two_events_open)
    show "state (sse_sse_open b) \<noteq> STREAMING
          \<longrightarrow> (sse_stream_tick e ^^ n) (sse_sse_open b) = sse_sse_open b"
      by (simp add: sse_stream_ticks_not_streaming)
  qed
  from generate_ticks_types [where e = e and n = n and s = "generate_open b"] obtain k where
    k: "event_types (out ((generate_tick e ^^ n) (generate_open b)))
         = event_types (out (generate_open b)) @ replicate k ''heartbeat''" by blast
  have c6: "take 3 (event_types (out ((generate_tick e ^^ n) (generate_open b))))
      = take (length (event_types (out ((generate_tick e ^^ n) (generate_open b)))))
          [''connected'', ''tools'', ''heartbeat'']"
  proof (rule first_three_after_heartbeats [OF _ _ k])
    show "(state (generate_open b) = STREAMING
            \<and> event_types (out (generate_open b)) = [''connected'', ''tools''])
          \<or> (state (generate_open b) \<noteq> STREAMING
            \<and> event_types (out (generate_open b)) \<in> {[], [''connected'']})"
      unfolding generate_open_def by (rule two_events_open)
    show "state (generate_open b) \<noteq> STREAMING
          \<longrightarrow> (generate_tick e ^^ n) (generate_open b) = generate_open b"
      by (simp add: generate_ticks_not_streaming)
  qed
  from c1 c2 c3 c4 c5 c6 show ?thesis by (simp add: Let_def)
qed

end
